theory Spec2Isabelle
  imports Complex_Main
begin

section \<open>Python values, exceptions and the state a layer method runs in\<close>

text \<open>
  The layer classes of \<^verbatim>\<open>tensorlayer/layers/convolution/atrous_conv.py\<close> and
  \<^verbatim>\<open>tensorlayer/layers/normalization.py\<close> are embedded as state transformers.
  An exception of the source is a value of type \<open>error\<close>; the constructor names are
  the Python exception classes and the argument is the message (for \<open>AttributeError\<close>,
  \<open>NameError\<close> and \<open>KeyError\<close>: the name that could not be resolved).
\<close>

datatype error =
    ValueError string
  | Exception string
  | AttributeError string
  | NameError string
  | TypeError string
  | KeyError string
  | IndexError string
  | ZeroDivisionError string

text \<open>
  The wrapped framework builds a computation graph: a tensor is a node of that graph.
  The element-wise operations used by \<^verbatim>\<open>batch_normalization\<close> have constructors of
  their own; every other framework operation is an uninterpreted node \<open>Op name args\<close>.
  A variable is known by its full name and carries the shape it was created with.
\<close>

datatype tensor =
    Placeholder string
  | Variable string "int list"
  | Const real
  | IntVector "int list"
  | Add tensor tensor
  | Sub tensor tensor
  | Mul tensor tensor
  | Div tensor tensor
  | Neg tensor
  | Sqrt tensor
  | Rsqrt tensor
  | Cast tensor
  | Reshape tensor "int list"
  | Op string "tensor list"

text \<open>
  Initializer objects of the framework. \<open>zeros_initializer_class\<close> is the class
  \<^verbatim>\<open>tf.zeros_initializer\<close> itself (the default of \<^verbatim>\<open>BatchNorm\<close>'s \<^verbatim>\<open>beta_init\<close>),
  \<open>Zeros\<close> an instance of it.
\<close>

datatype initializer =
    zeros_initializer_class
  | Zeros
  | Ones
  | ConstantInit real
  | RandomNormal real real
  | TruncatedNormal real real

text \<open>
  Python values held in attributes and passed as arguments. \<open>VFunc n f\<close> is a function
  object with \<^verbatim>\<open>__name__\<close> \<open>n\<close> that maps a tensor to a tensor (an activation function);
  \<open>VDim d\<close> is one dimension of a static shape, \<open>None\<close> when unknown;
  \<open>VLayer t\<close> is a layer object whose \<^verbatim>\<open>outputs\<close> is the tensor \<open>t\<close>; \<open>VDict kvs\<close> is a
  dictionary with string keys; \<open>VObject n\<close> is any other object, known by a name \<open>n\<close>
  (a module-level object, or \<^verbatim>\<open>self\<close>).
\<close>

datatype val =
    VNone
  | VBool bool
  | VInt int
  | VFloat real
  | VStr string
  | VList "val list"
  | VDim "int option"
  | VTensor tensor
  | VFunc string "tensor \<Rightarrow> tensor"
  | VInit initializer
  | VLayer tensor
  | VDict "(string \<times> val) list"
  | VObject string

text \<open>
  The state: the attribute dictionary of the layer object (\<^verbatim>\<open>self.__dict__\<close>), the
  framework's variable store (name, requested shape and initializer of every variable
  created so far, in order of creation), the stack of open variable scopes, what the layer has
  registered with the base class (\<^verbatim>\<open>_add_layers\<close>, \<^verbatim>\<open>_add_params\<close>, \<^verbatim>\<open>add_weights\<close>), and the
  weights the base class has created for the layer (\<^verbatim>\<open>_local_weights\<close>).
\<close>

record state =
  self :: "string \<rightharpoonup> val"
  variables :: "(string \<times> val \<times> val) list"
  variable_scope :: "string list"
  all_layers :: "val list"
  all_params :: "val list"
  local_weights :: "val list"

type_synonym 'a py = "state \<Rightarrow> (error + 'a) \<times> state"

definition ret :: "'a \<Rightarrow> 'a py" where
  "ret x = (\<lambda>s. (Inr x, s))"

definition raise :: "error \<Rightarrow> 'a py" where
  "raise e = (\<lambda>s. (Inl e, s))"

definition andthen :: "'a py \<Rightarrow> ('a \<Rightarrow> 'b py) \<Rightarrow> 'b py" where
  "andthen m f = (\<lambda>s. case m s of (Inl e, s') \<Rightarrow> (Inl e, s') | (Inr x, s') \<Rightarrow> f x s')"

fun do_all :: "unit py list \<Rightarrow> unit py" where
  "do_all [] = ret ()"
| "do_all (m # ms) = andthen m (\<lambda>_. do_all ms)"

definition getattr :: "string \<Rightarrow> val py" where
  "getattr a = (\<lambda>s. case self s a of None \<Rightarrow> (Inl (AttributeError a), s) | Some v \<Rightarrow> (Inr v, s))"

definition setattr :: "string \<Rightarrow> val \<Rightarrow> unit py" where
  "setattr a v = (\<lambda>s. (Inr (), s\<lparr>self := (self s)(a \<mapsto> v)\<rparr>))"

text \<open>\<^verbatim>\<open>str.upper()\<close> on ASCII text: the letters a to z are mapped, every other character is kept.\<close>

definition upper_char :: "char \<Rightarrow> char" where
  "upper_char c =
     (case map_of (zip ''abcdefghijklmnopqrstuvwxyz'' ''ABCDEFGHIJKLMNOPQRSTUVWXYZ'') c of
        Some u \<Rightarrow> u
      | None \<Rightarrow> c)"

definition upper :: "string \<Rightarrow> string" where
  "upper p = map upper_char p"

section \<open>Python primitives\<close>

definition lift :: "error + 'a \<Rightarrow> 'a py" where
  "lift r = (case r of Inl e \<Rightarrow> raise e | Inr x \<Rightarrow> ret x)"

text \<open>Indexing a sequence: a negative index counts from the end, an index out of range raises.\<close>

definition getitem :: "'a list \<Rightarrow> int \<Rightarrow> error + 'a" where
  "getitem xs i =
     (if 0 \<le> i \<and> i < int (length xs) then Inr (xs ! nat i)
      else if i < 0 \<and> - int (length xs) \<le> i then Inr (xs ! nat (int (length xs) + i))
      else Inl (IndexError ''index out of range''))"



text \<open>Sequencing of computations that touch no state: the first error ends the computation.\<close>

definition try_then :: "error + 'a \<Rightarrow> ('a \<Rightarrow> error + 'b) \<Rightarrow> error + 'b" where
  "try_then r f = (case r of Inl e \<Rightarrow> Inl e | Inr x \<Rightarrow> f x)"

text \<open>\<^verbatim>\<open>int(d)\<close> for a dimension \<open>d\<close> of a static shape: an unknown dimension has no integer value.\<close>

definition int_of_dim :: "int option \<Rightarrow> error + int" where
  "int_of_dim d =
     (case d of None \<Rightarrow> Inl (TypeError ''__int__ returned non-int (type NoneType)'')
      | Some c \<Rightarrow> Inr c)"

fun truthy :: "val \<Rightarrow> bool" where
  "truthy VNone = False"
| "truthy (VBool b) = b"
| "truthy (VInt i) = (i \<noteq> 0)"
| "truthy (VFloat r) = (r \<noteq> 0)"
| "truthy (VStr t) = (t \<noteq> [])"
| "truthy (VList vs) = (vs \<noteq> [])"
| "truthy (VDict kvs) = (kvs \<noteq> [])"
| "truthy _ = True"

text \<open>Calling a value on a tensor: only a function object is callable.\<close>

definition call :: "val \<Rightarrow> tensor \<Rightarrow> tensor py" where
  "call f x = (case f of VFunc n g \<Rightarrow> ret (g x) | _ \<Rightarrow> raise (TypeError ''object is not callable''))"

definition dunder_name :: "val \<Rightarrow> string py" where
  "dunder_name f = (case f of VFunc n g \<Rightarrow> ret n | _ \<Rightarrow> raise (AttributeError ''__name__''))"

text \<open>The operand \<^verbatim>\<open>self.act.__name__ if self.act is not None else 'No Activation'\<close> of the log lines.\<close>

definition act_name_or_default :: "string py" where
  "act_name_or_default =
     andthen (getattr ''act'') (\<lambda>a.
       if a \<noteq> VNone then andthen (getattr ''act'') dunder_name else ret ''No Activation'')"

text \<open>\<^verbatim>\<open>logging.info\<close> writes a log line; it does not touch the layer or the variable store.\<close>

definition logging_info :: "string \<Rightarrow> unit py" where
  "logging_info msg = ret ()"


text \<open>
  Integer arithmetic of \<^verbatim>\<open>GroupNorm.build\<close> on a channel count taken from a static shape
  (\<open>None\<close> when unknown) and the attribute \<^verbatim>\<open>groups\<close> (an integer, as its default 32 is).
  Python's \<^verbatim>\<open>//\<close> and \<^verbatim>\<open>%\<close> round towards minus infinity, as \<open>div\<close> and \<open>mod\<close> on \<open>int\<close> do,
  and raise on a zero divisor.
\<close>

definition py_floordiv :: "int option \<Rightarrow> val \<Rightarrow> error + int" where
  "py_floordiv channels groups =
     (case (channels, groups) of
        (Some c, VInt g) \<Rightarrow>
          if g = 0 then Inl (ZeroDivisionError ''integer division or modulo by zero'')
          else Inr (c div g)
      | _ \<Rightarrow> Inl (TypeError ''unsupported operand type(s) for //''))"

definition py_mod :: "int option \<Rightarrow> val \<Rightarrow> error + int" where
  "py_mod channels groups =
     (case (channels, groups) of
        (Some c, VInt g) \<Rightarrow>
          if g = 0 then Inl (ZeroDivisionError ''integer division or modulo by zero'')
          else Inr (c mod g)
      | _ \<Rightarrow> Inl (TypeError ''unsupported operand type(s) for %''))"

definition py_gt :: "val \<Rightarrow> int option \<Rightarrow> error + bool" where
  "py_gt groups channels =
     (case (groups, channels) of
        (VInt g, Some c) \<Rightarrow> Inr (g > c)
      | _ \<Rightarrow> Inl (TypeError ''> not supported between these instances''))"

definition int_or_none :: "int option \<Rightarrow> val" where
  "int_or_none d = (case d of None \<Rightarrow> VNone | Some c \<Rightarrow> VInt c)"

text \<open>
  The names bound at module level in \<^verbatim>\<open>normalization.py\<close> (imports, functions, classes).
  A free name of a method body is looked up among the locals, then among these; a name
  found in neither raises \<^verbatim>\<open>NameError\<close> (no builtin is called \<^verbatim>\<open>gamma_init\<close> or \<^verbatim>\<open>beta_init\<close>).
\<close>

definition module_globals :: "string list" where
  "module_globals =
     [''tf'', ''moving_averages'', ''ops'', ''math_ops'', ''Layer'', ''LayersConfig'',
      ''TF_GRAPHKEYS_VARIABLES'', ''get_collection_trainable'', ''logging'',
      ''deprecated_alias'', ''__all__'', ''LocalResponseNorm'', ''_to_channel_first_bias'',
      ''_bias_scale'', ''_bias_add'', ''batch_normalization'', ''BatchNorm'',
      ''InstanceNorm'', ''LayerNorm'', ''GroupNorm'', ''SwitchNorm'']"

definition load_name :: "(string \<rightharpoonup> val) \<Rightarrow> string \<Rightarrow> val py" where
  "load_name locals n =
     (case locals n of
        Some v \<Rightarrow> ret v
      | None \<Rightarrow> if n \<in> set module_globals then ret (VObject n) else raise (NameError n))"

section \<open>The framework\<close>

text \<open>
  The framework is external. What its operations do to the variable store is modelled, and
  so are the checks that the properties below depend on: the rule for names, the requirement
  that the shape of a new variable be fully defined, and the check of static shapes made when
  an element-wise operation is added to the graph. Every other operation (a convolution, the
  moments of a tensor) is an uninterpreted node and is taken to return. The sharing of
  variables (\<^verbatim>\<open>reuse\<close>) is not modelled: every call of \<^verbatim>\<open>tf.get_variable\<close> creates a variable.
  The static shape the framework has inferred for a tensor is a parameter \<open>shp\<close> of the
  functions that read one: a list of dimensions, each an integer or \<open>None\<close> when unknown
  (shapes of unknown rank are not modelled).
\<close>

subsection \<open>Names and variable scopes\<close>

text \<open>
  The name of a scope opened inside another one, and the full name of a variable created in
  a scope, are joined with a slash; at the root there is nothing to join.
\<close>

definition scope_join :: "string \<Rightarrow> string \<Rightarrow> string" where
  "scope_join scope n = (if scope = [] then n else scope @ ''/'' @ n)"

definition scope_name :: "string list \<Rightarrow> string" where
  "scope_name sc = foldl scope_join [] sc"

definition scoped :: "string list \<Rightarrow> string \<Rightarrow> string" where
  "scoped sc n = scope_join (scope_name sc) n"

text \<open>
  The framework's rule for names. A name used at the root starts with a letter, a digit or
  a dot and goes on with letters, digits and the characters \<^verbatim>\<open>_ . - /\<close>; a name used inside a
  scope consists of characters of the second kind. Any other name is refused with a
  \<^verbatim>\<open>ValueError\<close>.
\<close>

definition name_start :: string where
  "name_start = ''ABCDEFGHIJKLMNOPQRSTUVWXYZabcdefghijklmnopqrstuvwxyz0123456789.''"

definition name_rest :: string where
  "name_rest = name_start @ ''_-/''"

definition valid_name :: "string \<Rightarrow> string \<Rightarrow> bool" where
  "valid_name scope n =
     (if scope = [] then
        (case n of [] \<Rightarrow> False
         | c # cs \<Rightarrow> c \<in> set name_start \<and> list_all (\<lambda>c. c \<in> set name_rest) cs)
      else list_all (\<lambda>c. c \<in> set name_rest) n)"

definition name_msg :: "string \<Rightarrow> string" where
  "name_msg n = ''not a valid scope name: '' @ n"

text \<open>
  The shape argument of \<^verbatim>\<open>tf.get_variable\<close>: an integer or a dimension stands for a vector of
  that size, a list gives one size per axis. The shape of a new variable must be fully
  defined: a shape with an unknown size, or no shape, is refused with a \<^verbatim>\<open>ValueError\<close>.
\<close>

definition shape_dims :: "val \<Rightarrow> int list option" where
  "shape_dims shape =
     (case shape of
        VInt i \<Rightarrow> Some [i]
      | VDim d \<Rightarrow> map_option (\<lambda>i. [i]) d
      | VList vs \<Rightarrow> those (map (\<lambda>v. case v of VInt i \<Rightarrow> Some i | VDim d \<Rightarrow> d | _ \<Rightarrow> None) vs)
      | _ \<Rightarrow> None)"

definition shape_msg :: string where
  "shape_msg = ''Shape of a new variable must be fully defined''"

text \<open>
  \<^verbatim>\<open>tf.get_variable\<close> checks the shape and the name, records the variable under the open
  variable scopes and returns its handle.
\<close>

definition get_variable :: "string \<Rightarrow> val \<Rightarrow> val \<Rightarrow> tensor py" where
  "get_variable n shape init =
     (\<lambda>s. case shape_dims shape of
             None \<Rightarrow> (Inl (ValueError shape_msg), s)
           | Some ds \<Rightarrow>
               if valid_name (scope_name (variable_scope s)) n
               then (Inr (Variable (scoped (variable_scope s) n) ds),
                     s\<lparr>variables := variables s @ [(scoped (variable_scope s) n, shape, init)]\<rparr>)
               else (Inl (ValueError (name_msg n)), s))"

text \<open>
  \<^verbatim>\<open>tf.variable_scope\<close> checks the name (the empty name is let through and opens no name
  scope), opens a scope for the body of the \<^verbatim>\<open>with\<close> block and closes it again, also when the
  body raises.
\<close>

definition with_variable_scope :: "string \<Rightarrow> 'a py \<Rightarrow> 'a py" where
  "with_variable_scope n body =
     (\<lambda>s. if n \<noteq> [] \<and> \<not> valid_name (scope_name (variable_scope s)) n
           then (Inl (ValueError (name_msg n)), s)
           else (case body (s\<lparr>variable_scope := variable_scope s @ [n]\<rparr>) of
                   (r, s') \<Rightarrow> (r, s'\<lparr>variable_scope := variable_scope s\<rparr>)))"



subsection \<open>Tensors as Python values\<close>

text \<open>Passing a Python value where the framework expects a tensor.\<close>

definition convert_to_tensor :: "val \<Rightarrow> error + tensor" where
  "convert_to_tensor v =
     (case v of
        VTensor t \<Rightarrow> Inr t
      | VFloat r \<Rightarrow> Inr (Const r)
      | VInt i \<Rightarrow> Inr (Const (of_int i))
      | VNone \<Rightarrow> Inl (ValueError ''None values not supported.'')
      | _ \<Rightarrow> Inl (TypeError ''Failed to convert object to Tensor''))"

text \<open>\<^verbatim>\<open>x.get_shape()\<close>, \<^verbatim>\<open>x.shape\<close> and \<^verbatim>\<open>x.dtype\<close>: only a tensor has them.\<close>

definition get_shape :: "(tensor \<Rightarrow> int option list) \<Rightarrow> val \<Rightarrow> error + int option list" where
  "get_shape shp x = (case x of VTensor t \<Rightarrow> Inr (shp t) | _ \<Rightarrow> Inl (AttributeError ''get_shape''))"

definition shape_attr :: "(tensor \<Rightarrow> int option list) \<Rightarrow> val \<Rightarrow> error + int option list" where
  "shape_attr shp x = (case x of VTensor t \<Rightarrow> Inr (shp t) | _ \<Rightarrow> Inl (AttributeError ''shape''))"


subsection \<open>Static shapes and element-wise operations\<close>

text \<open>
  When an element-wise operation on two tensors is added to the graph, the framework
  broadcasts their static shapes: the shapes are aligned at the last axis, and two sizes of
  one axis go together when they are equal, when one of them is 1, or when one of them is
  unknown. Sizes that are known, different and both not 1 are refused with a \<^verbatim>\<open>ValueError\<close>.
\<close>

definition broadcast_static_dim :: "int option \<Rightarrow> int option \<Rightarrow> int option option" where
  "broadcast_static_dim a b =
     (case (a, b) of
        (Some m, Some n) \<Rightarrow>
          if m = n then Some (Some m) else if m = 1 then Some (Some n)
          else if n = 1 then Some (Some m) else None
      | (Some m, None) \<Rightarrow> Some (if 1 < m then Some m else None)
      | (None, Some n) \<Rightarrow> Some (if 1 < n then Some n else None)
      | (None, None) \<Rightarrow> Some None)"

text \<open>Both shapes are given last axis first.\<close>

fun broadcast_static_rev :: "int option list \<Rightarrow> int option list \<Rightarrow> int option list option" where
  "broadcast_static_rev [] bs = Some bs"
| "broadcast_static_rev as [] = Some as"
| "broadcast_static_rev (a # as) (b # bs) =
     (case broadcast_static_dim a b of
        None \<Rightarrow> None
      | Some d \<Rightarrow> map_option ((#) d) (broadcast_static_rev as bs))"

definition broadcast_msg :: string where
  "broadcast_msg = ''Dimensions must be equal''"

definition broadcast_static :: "int option list \<Rightarrow> int option list \<Rightarrow> error + int option list" where
  "broadcast_static as bs =
     (case broadcast_static_rev (rev as) (rev bs) of
        None \<Rightarrow> Inl (ValueError broadcast_msg)
      | Some ds \<Rightarrow> Inr (rev ds))"

text \<open>\<^verbatim>\<open>tf.add(x, y)\<close>, \<^verbatim>\<open>x - y\<close> and \<^verbatim>\<open>x * y\<close> on two tensors.\<close>

definition tf_add :: "(tensor \<Rightarrow> int option list) \<Rightarrow> tensor \<Rightarrow> tensor \<Rightarrow> error + tensor" where
  "tf_add shp x y = try_then (broadcast_static (shp x) (shp y)) (\<lambda>_. Inr (Add x y))"

definition tf_sub :: "(tensor \<Rightarrow> int option list) \<Rightarrow> tensor \<Rightarrow> tensor \<Rightarrow> error + tensor" where
  "tf_sub shp x y = try_then (broadcast_static (shp x) (shp y)) (\<lambda>_. Inr (Sub x y))"

definition tf_mul :: "(tensor \<Rightarrow> int option list) \<Rightarrow> tensor \<Rightarrow> tensor \<Rightarrow> error + tensor" where
  "tf_mul shp x y = try_then (broadcast_static (shp x) (shp y)) (\<lambda>_. Inr (Mul x y))"

text \<open>
  The static shape the framework infers for a tensor, from the shapes \<open>leaf\<close> of the
  placeholders and of the uninterpreted nodes: a variable has the shape it was created with,
  a number has no axis, an element-wise operation broadcasts, a reshape has the shape it
  is given. The properties that depend on the shapes of the tensors a method builds take
  \<open>shp\<close> to be this function.
\<close>

fun static_shape :: "(tensor \<Rightarrow> int option list) \<Rightarrow> tensor \<Rightarrow> int option list" where
  "static_shape leaf (Variable n ds) = map Some ds"
| "static_shape leaf (Const c) = []"
| "static_shape leaf (IntVector ns) = [Some (int (length ns))]"
| "static_shape leaf (Add a b) =
     (case broadcast_static (static_shape leaf a) (static_shape leaf b) of
        Inr ds \<Rightarrow> ds | Inl e \<Rightarrow> [])"
| "static_shape leaf (Sub a b) =
     (case broadcast_static (static_shape leaf a) (static_shape leaf b) of
        Inr ds \<Rightarrow> ds | Inl e \<Rightarrow> [])"
| "static_shape leaf (Mul a b) =
     (case broadcast_static (static_shape leaf a) (static_shape leaf b) of
        Inr ds \<Rightarrow> ds | Inl e \<Rightarrow> [])"
| "static_shape leaf (Div a b) =
     (case broadcast_static (static_shape leaf a) (static_shape leaf b) of
        Inr ds \<Rightarrow> ds | Inl e \<Rightarrow> [])"
| "static_shape leaf (Neg a) = static_shape leaf a"
| "static_shape leaf (Sqrt a) = static_shape leaf a"
| "static_shape leaf (Rsqrt a) = static_shape leaf a"
| "static_shape leaf (Cast a) = static_shape leaf a"
| "static_shape leaf (Reshape a ds) = map Some ds"
| "static_shape leaf (Placeholder n) = leaf (Placeholder n)"
| "static_shape leaf (Op n ts) = leaf (Op n ts)"

subsection \<open>Layer normalization\<close>



section \<open>The base class\<close>

text \<open>
  Modelled from the spec: the base class \<^verbatim>\<open>Layer\<close> of \<^verbatim>\<open>tensorlayer.layers.core\<close> is not
  among the sources. The spec says that "a layer object is constructed with static
  configuration" and that weights are allocated when the layer is built, so the constructor
  of the base class records the keyword arguments it is given as attributes and does
  nothing else.
\<close>

definition Layer_init :: "(string \<times> val) list \<Rightarrow> unit py" where
  "Layer_init kwargs = do_all (map (\<lambda>(k, v). setattr k v) kwargs)"

text \<open>
  Modelled from the spec: the constructor of the base class as the classes of the older
  interface call it, with the previous layer, the activation function and the name. By
  the "layer composes previous layer's output" convention that the spec attributes to the
  base class, the new layer's \<^verbatim>\<open>inputs\<close> is the previous layer's \<^verbatim>\<open>outputs\<close>
  (\<open>outputs_of\<close>: only a layer object has that attribute).
\<close>

definition outputs_of :: "val \<Rightarrow> tensor py" where
  "outputs_of layer = (case layer of VLayer t \<Rightarrow> ret t | _ \<Rightarrow> raise (AttributeError ''outputs''))"

definition Layer_init_prev :: "val \<Rightarrow> val \<Rightarrow> val \<Rightarrow> unit py" where
  "Layer_init_prev prev_layer act name =
     andthen (outputs_of prev_layer) (\<lambda>t.
       do_all [setattr ''inputs'' (VTensor t), setattr ''act'' act, setattr ''name'' name])"

text \<open>
  Modelled from the spec: the helpers of the base class that the layers call, absent from
  the sources like the class itself. \<^verbatim>\<open>_apply_activation\<close> applies the configured
  "activation function reference" when there is one; \<^verbatim>\<open>_add_layers\<close>, \<^verbatim>\<open>_add_params\<close> and
  \<^verbatim>\<open>add_weights\<close> register an output tensor and weights with the layer, which is how the
  layer enters the computation graph.
\<close>

definition apply_activation :: "tensor \<Rightarrow> tensor py" where
  "apply_activation x = andthen (getattr ''act'') (\<lambda>a. if a = VNone then ret x else call a x)"

definition add_layers :: "val \<Rightarrow> unit py" where
  "add_layers v = (\<lambda>s. (Inr (), s\<lparr>all_layers := all_layers s @ [v]\<rparr>))"

definition add_params :: "val list \<Rightarrow> unit py" where
  "add_params vs = (\<lambda>s. (Inr (), s\<lparr>all_params := all_params s @ vs\<rparr>))"

definition add_weights :: "val list \<Rightarrow> unit py" where
  "add_weights vs = (\<lambda>s. (Inr (), s\<lparr>all_params := all_params s @ vs\<rparr>))"



text \<open>
  Modelled from the spec: \<^verbatim>\<open>_get_tf_variable\<close> of the base class and the list
  \<^verbatim>\<open>_local_weights\<close>. By the spec "weights are owned by the underlying framework's variable
  store": the weight is created with \<^verbatim>\<open>tf.get_variable\<close>, and the base class keeps the list of
  the weights it has created for the layer. The keyword arguments \<^verbatim>\<open>dtype\<close> and those unpacked
  from the initializer arguments are handed to the framework and are left out.
\<close>

definition get_tf_variable :: "string \<Rightarrow> val \<Rightarrow> val \<Rightarrow> tensor py" where
  "get_tf_variable n shape init =
     andthen (get_variable n shape init)
       (\<lambda>w s. (Inr w, s\<lparr>local_weights := local_weights s @ [VTensor w]\<rparr>))"

definition get_local_weights :: "val list py" where
  "get_local_weights = (\<lambda>s. (Inr (local_weights s), s))"

section \<open>Atrous convolution layers\<close>

text \<open>The message of the padding check (the quotation marks around the two names left out).\<close>

definition padding_msg :: string where
  "padding_msg = ''`padding` value is not valid, should be either: SAME or VALID''"

text \<open>
  \<^verbatim>\<open>AtrousConv2dLayer.__init__\<close>: the padding is put in upper case and checked, the
  arguments are stored, then the constructor of the base class runs. (The decorator
  \<^verbatim>\<open>deprecated_alias\<close> only renames a keyword argument and is left out.)
\<close>

definition AtrousConv2dLayer_init ::
  "val \<Rightarrow> val \<Rightarrow> val \<Rightarrow> val \<Rightarrow> string \<Rightarrow> val \<Rightarrow> val \<Rightarrow> val \<Rightarrow> val \<Rightarrow> val \<Rightarrow> val \<Rightarrow> unit py" where
  "AtrousConv2dLayer_init prev_layer n_filter filter_size rate padding W_init b_init
       W_init_args b_init_args act name =
     (let padding = upper padding in
      if padding \<notin> set [''SAME'', ''VALID''] then raise (ValueError padding_msg)
      else do_all [
        setattr ''prev_layer'' prev_layer,
        setattr ''n_filter'' n_filter,
        setattr ''filter_size'' filter_size,
        setattr ''rate'' rate,
        setattr ''padding'' (VStr padding),
        setattr ''W_init'' W_init,
        setattr ''b_init'' b_init,
        setattr ''act'' act,
        setattr ''name'' name,
        Layer_init [(''W_init_args'', W_init_args), (''b_init_args'', b_init_args)]])"

definition AtrousDeConv2dLayer_init ::
  "val \<Rightarrow> val \<Rightarrow> val \<Rightarrow> string \<Rightarrow> val \<Rightarrow> val \<Rightarrow> val \<Rightarrow> val \<Rightarrow> val \<Rightarrow> val \<Rightarrow> unit py" where
  "AtrousDeConv2dLayer_init prev_layer shape rate padding W_init b_init
       W_init_args b_init_args act name =
     (let padding = upper padding in
      if padding \<notin> set [''SAME'', ''VALID''] then raise (ValueError padding_msg)
      else do_all [
        setattr ''prev_layer'' prev_layer,
        setattr ''shape'' shape,
        setattr ''rate'' rate,
        setattr ''padding'' (VStr padding),
        setattr ''W_init'' W_init,
        setattr ''b_init'' b_init,
        setattr ''act'' act,
        setattr ''name'' name,
        Layer_init [(''W_init_args'', W_init_args), (''b_init_args'', b_init_args)]])"



section \<open>Normalization layers\<close>

subsection \<open>LocalResponseNorm\<close>



subsection \<open>The helper \<^verbatim>\<open>batch_normalization\<close>\<close>

text \<open>\<^verbatim>\<open>_to_channel_first_bias\<close>: reshape \<open>[c]\<close> to \<open>[c, 1, 1]\<close>, reading \<open>c\<close> from the static shape.\<close>

definition to_channel_first_bias :: "(tensor \<Rightarrow> int option list) \<Rightarrow> tensor \<Rightarrow> error + tensor" where
  "to_channel_first_bias shp b =
     (case getitem (shp b) 0 of
        Inl e \<Rightarrow> Inl e
      | Inr d \<Rightarrow>
          (case int_of_dim d of
             Inl e \<Rightarrow> Inl e
           | Inr channel_size \<Rightarrow> Inr (Reshape b [channel_size, 1, 1])))"

definition data_format_msg :: "string \<Rightarrow> string" where
  "data_format_msg data_format = ''invalid data_format: '' @ data_format"

definition bias_scale :: "(tensor \<Rightarrow> int option list) \<Rightarrow> tensor \<Rightarrow> tensor \<Rightarrow> string \<Rightarrow> error + tensor" where
  "bias_scale shp x b data_format =
     (if data_format = ''NHWC'' then tf_mul shp x b
      else if data_format = ''NCHW'' then try_then (to_channel_first_bias shp b) (tf_mul shp x)
      else Inl (ValueError (data_format_msg data_format)))"

definition bias_add :: "(tensor \<Rightarrow> int option list) \<Rightarrow> tensor \<Rightarrow> tensor \<Rightarrow> string \<Rightarrow> error + tensor" where
  "bias_add shp x b data_format =
     (if data_format = ''NHWC'' then tf_add shp x b
      else if data_format = ''NCHW'' then try_then (to_channel_first_bias shp b) (tf_add shp x)
      else Inl (ValueError (data_format_msg data_format)))"

text \<open>The dictionary \<^verbatim>\<open>df\<close> of \<^verbatim>\<open>batch_normalization\<close>.\<close>

definition df :: "string \<rightharpoonup> string" where
  "df = [''channels_first'' \<mapsto> ''NCHW'', ''channels_last'' \<mapsto> ''NHWC'']"

text \<open>
  \<^verbatim>\<open>batch_normalization\<close>: \<open>inv\<close> is \<^verbatim>\<open>rsqrt(variance + variance_epsilon)\<close>, multiplied by the
  scale when there is one; the two coefficients are \<open>a = cast(inv)\<close> and
  \<open>b = cast(offset - mean * inv)\<close>, or \<open>cast(-mean * inv)\<close> without an offset; the result is
  \<^verbatim>\<open>_bias_add(_bias_scale(x, a, df[data_format]), b, df[data_format])\<close>.
\<close>

definition batch_normalization ::
  "(tensor \<Rightarrow> int option list) \<Rightarrow> tensor \<Rightarrow> tensor \<Rightarrow> tensor \<Rightarrow> tensor option \<Rightarrow> tensor option
     \<Rightarrow> real \<Rightarrow> string \<Rightarrow> error + tensor" where
  "batch_normalization shp x mean variance offset scale variance_epsilon data_format =
     try_then (tf_add shp variance (Const variance_epsilon)) (\<lambda>shifted.
     try_then (case scale of
                 Some sc \<Rightarrow> tf_mul shp (Rsqrt shifted) sc
               | None \<Rightarrow> Inr (Rsqrt shifted)) (\<lambda>inv.
     try_then (case offset of
                 Some off \<Rightarrow> try_then (tf_mul shp mean inv) (tf_sub shp off)
               | None \<Rightarrow> tf_mul shp (Neg mean) inv) (\<lambda>shift.
     (let a = Cast inv; b = Cast shift in
      case df data_format of
        None \<Rightarrow> Inl (KeyError data_format)
      | Some f \<Rightarrow> try_then (bias_scale shp x a f) (\<lambda>y. bias_add shp y b f)))))"

subsection \<open>The value of a tensor\<close>

text \<open>
  The value of a tensor is an array of numbers, over exact (real) arithmetic: its shape and
  the number at every index (a list with one position per axis).
\<close>

record ndarray =
  dims :: "nat list"
  item :: "nat list \<Rightarrow> real"

text \<open>
  Broadcasting of two arrays: the shapes are aligned at the last axis, two sizes of one axis
  go together when they are equal or one of them is 1, and an operand of size 1 on an axis is
  read at position 0 there. Shapes and indices are given last axis first.
\<close>

definition broadcast_dim :: "nat \<Rightarrow> nat \<Rightarrow> nat option" where
  "broadcast_dim m n =
     (if m = n then Some m else if m = 1 then Some n else if n = 1 then Some m else None)"

fun broadcast_rev :: "nat list \<Rightarrow> nat list \<Rightarrow> nat list option" where
  "broadcast_rev [] ns = Some ns"
| "broadcast_rev ms [] = Some ms"
| "broadcast_rev (m # ms) (n # ns) =
     (case broadcast_dim m n of
        None \<Rightarrow> None
      | Some d \<Rightarrow> map_option ((#) d) (broadcast_rev ms ns))"

definition broadcast_shape :: "nat list \<Rightarrow> nat list \<Rightarrow> nat list option" where
  "broadcast_shape ms ns = map_option rev (broadcast_rev (rev ms) (rev ns))"

fun operand_rev :: "nat list \<Rightarrow> nat list \<Rightarrow> nat list" where
  "operand_rev (d # ds) (i # is) = (if d = 1 then 0 else i) # operand_rev ds is"
| "operand_rev ds is = []"

definition operand_index :: "nat list \<Rightarrow> nat list \<Rightarrow> nat list" where
  "operand_index ds idx = rev (operand_rev (rev ds) (rev idx))"

definition pointwise ::
  "(real \<Rightarrow> real \<Rightarrow> real) \<Rightarrow> ndarray option \<Rightarrow> ndarray option \<Rightarrow> ndarray option" where
  "pointwise f a b =
     (case (a, b) of
        (Some A, Some B) \<Rightarrow>
          (case broadcast_shape (dims A) (dims B) of
             None \<Rightarrow> None
           | Some ds \<Rightarrow>
               Some \<lparr>dims = ds,
                     item = (\<lambda>idx. f (item A (operand_index (dims A) idx))
                                      (item B (operand_index (dims B) idx)))\<rparr>)
      | _ \<Rightarrow> None)"

definition elementwise :: "(real \<Rightarrow> real) \<Rightarrow> ndarray option \<Rightarrow> ndarray option" where
  "elementwise f a = map_option (\<lambda>A. \<lparr>dims = dims A, item = (\<lambda>idx. f (item A idx))\<rparr>) a"

text \<open>
  A reshape keeps the numbers in row-major order: the position of an index in that order
  (\<open>ravel_rev\<close>) and the index at a position (\<open>unravel_rev\<close>), last axis first.
\<close>

fun ravel_rev :: "nat list \<Rightarrow> nat list \<Rightarrow> nat" where
  "ravel_rev (d # ds) (i # is) = i + d * ravel_rev ds is"
| "ravel_rev ds is = 0"

fun unravel_rev :: "nat list \<Rightarrow> nat \<Rightarrow> nat list" where
  "unravel_rev [] k = []"
| "unravel_rev (d # ds) k = (k mod d) # unravel_rev ds (k div d)"

definition reshape :: "nat list \<Rightarrow> ndarray \<Rightarrow> ndarray option" where
  "reshape ds A =
     (if prod_list ds = prod_list (dims A)
      then Some \<lparr>dims = ds,
                 item = (\<lambda>idx. item A (rev (unravel_rev (rev (dims A))
                                                (ravel_rev (rev ds) (rev idx)))))\<rparr>
      else None)"

text \<open>
  The value of a tensor built from the element-wise operations and reshapes: \<open>env\<close> gives
  the value of every other tensor. The result is \<open>None\<close> when two shapes do not go together.
  A cast keeps the value, the arithmetic being exact.
\<close>

fun eval :: "(tensor \<Rightarrow> ndarray) \<Rightarrow> tensor \<Rightarrow> ndarray option" where
  "eval env (Const c) = Some \<lparr>dims = [], item = (\<lambda>idx. c)\<rparr>"
| "eval env (Add a b) = pointwise (+) (eval env a) (eval env b)"
| "eval env (Sub a b) = pointwise (-) (eval env a) (eval env b)"
| "eval env (Mul a b) = pointwise (*) (eval env a) (eval env b)"
| "eval env (Div a b) = pointwise (/) (eval env a) (eval env b)"
| "eval env (Neg a) = elementwise uminus (eval env a)"
| "eval env (Sqrt a) = elementwise sqrt (eval env a)"
| "eval env (Rsqrt a) = elementwise (\<lambda>r. 1 / sqrt r) (eval env a)"
| "eval env (Cast a) = eval env a"
| "eval env (Reshape a ds) =
     (case eval env a of None \<Rightarrow> None | Some A \<Rightarrow> reshape (map nat ds) A)"
| "eval env (Placeholder n) = Some (env (Placeholder n))"
| "eval env (Variable n ds) = Some (env (Variable n ds))"
| "eval env (IntVector ns) = Some (env (IntVector ns))"
| "eval env (Op n ts) = Some (env (Op n ts))"

text \<open>
  The reference definition of the normalization, as the claim words it:
  \<open>gamma * (x - m) / sqrt (v + e) + beta\<close>, a missing scale or offset leaving its term out.
\<close>

definition reference_normalization ::
  "real \<Rightarrow> real \<Rightarrow> real \<Rightarrow> real option \<Rightarrow> real option \<Rightarrow> real \<Rightarrow> real" where
  "reference_normalization x m v beta gamma e =
     (case gamma of Some g \<Rightarrow> g * (x - m) / sqrt (v + e) | None \<Rightarrow> (x - m) / sqrt (v + e))
     + (case beta of Some b \<Rightarrow> b | None \<Rightarrow> 0)"

subsection \<open>BatchNorm\<close>

definition decay_msg :: string where
  "decay_msg = ''decay should be between 0 to 1''"

definition BatchNorm_data_format_msg :: string where
  "BatchNorm_data_format_msg = ''data_format should be either channels_last or channels_first''"

text \<open>The body of the \<^verbatim>\<open>with tf.variable_scope(name)\<close> block; it returns the list \<^verbatim>\<open>variables\<close>.\<close>

definition BatchNorm_scope_body ::
  "(tensor \<Rightarrow> int option list) \<Rightarrow> tensor \<Rightarrow> int option list \<Rightarrow> int \<Rightarrow> int option \<Rightarrow> real \<Rightarrow> real
     \<Rightarrow> bool \<Rightarrow> val \<Rightarrow> val \<Rightarrow> val \<Rightarrow> string \<Rightarrow> val list py" where
  "BatchNorm_scope_body shp inputs x_shape axis params_shape decay epsilon is_train
       beta_init gamma_init moving_mean_init data_format =
     (let axes = filter (\<lambda>i. i \<noteq> axis) (map int [0..<length x_shape]) in
      andthen
        (if truthy beta_init then
           (let beta_init = (if beta_init = VInit zeros_initializer_class then VInit Zeros
                             else beta_init)
            in andthen (get_variable ''beta'' (VDim params_shape) beta_init) (\<lambda>beta.
                 ret (Some beta, [VTensor beta])))
         else ret (None, [])) (\<lambda>(beta, variables).
      andthen
        (if truthy gamma_init then
           andthen (get_variable ''gamma'' (VDim params_shape) gamma_init) (\<lambda>gamma.
             ret (Some gamma, variables @ [VTensor gamma]))
         else ret (None, variables)) (\<lambda>(gamma, variables).
      andthen (get_variable ''moving_mean'' (VDim params_shape) moving_mean_init) (\<lambda>moving_mean.
      andthen (get_variable ''moving_variance'' (VDim params_shape) (VInit (ConstantInit 1)))
        (\<lambda>moving_variance.
      (let mean = Op ''moments.mean'' [inputs, IntVector axes];
           variance = Op ''moments.variance'' [inputs, IntVector axes];
           update_moving_mean = Op ''assign_moving_average'' [moving_mean, mean, Const decay];
           update_moving_variance =
             Op ''assign_moving_average'' [moving_variance, variance, Const decay];
           mean_var =
             (if is_train then
                (Op ''identity'' [mean, update_moving_mean, update_moving_variance],
                 Op ''identity'' [variance, update_moving_mean, update_moving_variance])
              else (moving_mean, moving_variance))
       in andthen (lift (batch_normalization shp inputs (fst mean_var) (snd mean_var) beta gamma
                           epsilon data_format)) (\<lambda>normalized.
          andthen (apply_activation normalized) (\<lambda>outputs.
          andthen (setattr ''outputs'' (VTensor outputs)) (\<lambda>_.
          ret (variables @ [VTensor moving_mean, VTensor moving_variance]))))))))))"

definition BatchNorm_init ::
  "(tensor \<Rightarrow> int option list) \<Rightarrow> val \<Rightarrow> real \<Rightarrow> real \<Rightarrow> val \<Rightarrow> bool \<Rightarrow> val \<Rightarrow> val \<Rightarrow> val
     \<Rightarrow> string \<Rightarrow> string \<Rightarrow> unit py" where
  "BatchNorm_init shp prev_layer decay epsilon act is_train beta_init gamma_init
       moving_mean_init data_format name =
     andthen (Layer_init_prev prev_layer act (VStr name)) (\<lambda>_.
     andthen (getattr ''name'') (\<lambda>_.
     andthen act_name_or_default (\<lambda>_.
     andthen (logging_info ''BatchNorm %s: decay: %f epsilon: %f act: %s is_train: %s'') (\<lambda>_.
     if decay < 0 \<or> 1 < decay then raise (Exception decay_msg)
     else
       andthen (getattr ''inputs'') (\<lambda>inputs.
       andthen (lift (get_shape shp inputs)) (\<lambda>x_shape.
       andthen (if data_format = ''channels_last'' then ret (int (length x_shape) - 1)
                else if data_format = ''channels_first'' then ret 1
                else raise (ValueError BatchNorm_data_format_msg)) (\<lambda>axis.
       andthen (lift (getitem x_shape axis)) (\<lambda>params_shape.
       andthen (with_variable_scope name
                  (andthen (getattr ''inputs'') (\<lambda>inputs.
                   andthen (lift (convert_to_tensor inputs)) (\<lambda>inputs.
                     BatchNorm_scope_body shp inputs x_shape axis params_shape decay epsilon
                       is_train beta_init gamma_init moving_mean_init data_format))))
         (\<lambda>variables.
       andthen (getattr ''outputs'') (\<lambda>outputs.
       andthen (add_layers outputs) (\<lambda>_.
       add_params variables)))))))))))"

subsection \<open>InstanceNorm\<close>



text \<open>
  \<^verbatim>\<open>InstanceNorm.forward\<close>: the moments, the normalised tensor and the call of \<^verbatim>\<open>self.act\<close>.
  The arithmetic on the input is taken to return (the input is taken to have the shape the
  weights were created for).
\<close>

definition InstanceNorm_forward :: "tensor \<Rightarrow> tensor py" where
  "InstanceNorm_forward inputs =
     (let mean = Op ''moments.mean'' [inputs, IntVector [1, 2]];
          var = Op ''moments.variance'' [inputs, IntVector [1, 2]]
      in andthen (getattr ''scale'') (\<lambda>scale.
         andthen (getattr ''epsilon'') (\<lambda>epsilon.
         andthen (lift (convert_to_tensor epsilon)) (\<lambda>epsilon.
         andthen (lift (convert_to_tensor scale)) (\<lambda>scale.
         andthen (getattr ''offset'') (\<lambda>offset.
         andthen (lift (convert_to_tensor offset)) (\<lambda>offset.
         (let outputs = Add (Mul scale (Div (Sub inputs mean) (Sqrt (Add var epsilon)))) offset
          in andthen (getattr ''act'') (\<lambda>act.
             andthen (call act outputs) (\<lambda>outputs.
             ret outputs))))))))))"

subsection \<open>LayerNorm\<close>


subsection \<open>GroupNorm\<close>

definition GroupNorm_init :: "int \<Rightarrow> real \<Rightarrow> val \<Rightarrow> string \<Rightarrow> val \<Rightarrow> unit py" where
  "GroupNorm_init groups epsilon act data_format name =
     do_all [
       Layer_init [(''name'', name)],
       setattr ''groups'' (VInt groups),
       setattr ''epsilon'' (VFloat epsilon),
       setattr ''act'' act,
       setattr ''data_format'' (VStr data_format),
       andthen (getattr ''name'') (\<lambda>_.
       andthen act_name_or_default (\<lambda>_.
         logging_info ''GroupNorm %s: act: %s''))]"

definition GroupNorm_dims_msg :: string where
  "GroupNorm_dims_msg = ''GroupNorm only supports 2D images.''"

definition GroupNorm_data_format_msg :: string where
  "GroupNorm_data_format_msg = ''data_format must be channels_last or channels_first.''"

definition groups_msg :: string where
  "groups_msg = ''Invalid groups %d for %d channels.''"

definition commensurate_msg :: string where
  "commensurate_msg = ''%d channels is not commensurate with %d groups.''"

text \<open>\<^verbatim>\<open>tf.convert_to_tensor\<close> on a list of Python integers.\<close>

definition int_vector :: "val list \<Rightarrow> error + tensor" where
  "int_vector vs =
     (case those (map (\<lambda>v. case v of VInt i \<Rightarrow> Some i | _ \<Rightarrow> None) vs) of
        Some ns \<Rightarrow> Inr (IntVector ns)
      | None \<Rightarrow> Inl (TypeError ''Failed to convert object to Tensor''))"

definition GroupNorm_build :: "(tensor \<Rightarrow> int option list) \<Rightarrow> val \<Rightarrow> unit py" where
  "GroupNorm_build shp inputs =
     andthen (lift (get_shape shp inputs)) (\<lambda>shape.
     if length shape \<noteq> 4 then raise (Exception GroupNorm_dims_msg)
     else
       andthen (getattr ''data_format'') (\<lambda>data_format.
       andthen
         (if data_format = VStr ''channels_last'' then
            andthen (lift (getitem shape (- 1))) (\<lambda>channels.
            andthen (getattr ''inputs'') (\<lambda>self_inputs.
            andthen (lift (convert_to_tensor self_inputs)) (\<lambda>self_inputs.
            andthen (getattr ''groups'') (\<lambda>groups.
            andthen (getattr ''groups'') (\<lambda>divisor.
            andthen (lift (py_floordiv channels divisor)) (\<lambda>per_group.
            andthen (lift (int_vector [groups, VInt per_group])) (\<lambda>group_dims.
            andthen (setattr ''int_shape''
                       (VTensor (Op ''concat''
                          [Op ''strided_slice[0:3]'' [Op ''shape'' [self_inputs]], group_dims])))
              (\<lambda>_. ret channels))))))))
          else if data_format = VStr ''channels_first'' then
            andthen (lift (getitem shape 1)) (\<lambda>channels.
            andthen (getattr ''inputs'') (\<lambda>self_inputs.
            andthen (lift (convert_to_tensor self_inputs)) (\<lambda>self_inputs.
            andthen (getattr ''groups'') (\<lambda>groups.
            andthen (getattr ''groups'') (\<lambda>divisor.
            andthen (lift (py_floordiv channels divisor)) (\<lambda>per_group.
            andthen (lift (int_vector [groups, VInt per_group])) (\<lambda>group_dims.
            andthen (getattr ''inputs'') (\<lambda>self_inputs2.
            andthen (lift (convert_to_tensor self_inputs2)) (\<lambda>self_inputs2.
            andthen (setattr ''int_shape''
                       (VTensor (Op ''concat''
                          [Op ''strided_slice[0:1]'' [Op ''shape'' [self_inputs]], group_dims,
                           Op ''strided_slice[2:4]'' [Op ''shape'' [self_inputs2]]])))
              (\<lambda>_. ret channels))))))))))
          else raise (ValueError GroupNorm_data_format_msg)) (\<lambda>channels.
       andthen (getattr ''groups'') (\<lambda>groups.
       andthen (lift (py_gt groups channels)) (\<lambda>too_many.
       if too_many then raise (ValueError groups_msg)
       else
         andthen (getattr ''groups'') (\<lambda>groups.
         andthen (lift (py_mod channels groups)) (\<lambda>remainder.
         if remainder \<noteq> 0 then raise (ValueError commensurate_msg)
         else
           andthen (getattr ''data_format'') (\<lambda>data_format.
           andthen
             (if data_format = VStr ''channels_last'' then
                andthen (get_variable ''gamma'' (int_or_none channels) (VInit Ones)) (\<lambda>gamma.
                andthen (setattr ''gamma'' (VTensor gamma)) (\<lambda>_.
                andthen (get_variable ''beta'' (int_or_none channels) (VInit Zeros)) (\<lambda>beta.
                setattr ''beta'' (VTensor beta))))
              else
                andthen (get_variable ''gamma''
                           (VList [VInt 1, int_or_none channels, VInt 1, VInt 1]) (VInit Ones))
                  (\<lambda>gamma.
                andthen (setattr ''gamma'' (VTensor gamma)) (\<lambda>_.
                andthen (get_variable ''beta''
                           (VList [VInt 1, int_or_none channels, VInt 1, VInt 1]) (VInit Zeros))
                  (\<lambda>beta.
                setattr ''beta'' (VTensor beta))))) (\<lambda>_.
           andthen (getattr ''gamma'') (\<lambda>gamma.
           andthen (getattr ''bata'') (\<lambda>bata.
           add_weights [gamma, bata])))))))))))"

subsection \<open>SwitchNorm\<close>

definition SwitchNorm_init :: "val \<Rightarrow> real \<Rightarrow> val \<Rightarrow> val \<Rightarrow> val \<Rightarrow> val \<Rightarrow> unit py" where
  "SwitchNorm_init act epsilon beta_init gamma_init moving_mean_init name =
     do_all [
       Layer_init [(''name'', name)],
       setattr ''act'' act,
       setattr ''epsilon'' (VFloat epsilon),
       setattr ''beta_init'' beta_init,
       setattr ''gamma_init'' gamma_init,
       setattr ''moving_mean_init'' moving_mean_init,
       andthen (getattr ''name'') (\<lambda>_.
       andthen act_name_or_default (\<lambda>_.
         logging_info ''SwitchNorm %s: epsilon: %f act: %s''))]"

text \<open>
  \<^verbatim>\<open>SwitchNorm.build\<close>: its local names are \<^verbatim>\<open>self\<close>, \<^verbatim>\<open>inputs\<close> and \<^verbatim>\<open>ch\<close>; the initializers
  are read through the free names \<^verbatim>\<open>gamma_init\<close> and \<^verbatim>\<open>beta_init\<close>.
\<close>

definition SwitchNorm_build :: "(tensor \<Rightarrow> int option list) \<Rightarrow> val \<Rightarrow> unit py" where
  "SwitchNorm_build shp inputs =
     andthen (lift (shape_attr shp inputs)) (\<lambda>shape.
     andthen (lift (getitem shape (- 1))) (\<lambda>ch.
     (let locals = [''self'' \<mapsto> VObject ''self'', ''inputs'' \<mapsto> inputs, ''ch'' \<mapsto> VDim ch] in
      andthen (load_name locals ''gamma_init'') (\<lambda>gamma_init.
      andthen (get_variable ''gamma'' (VList [VDim ch]) gamma_init) (\<lambda>gamma.
      andthen (setattr ''gamma'' (VTensor gamma)) (\<lambda>_.
      andthen (load_name locals ''beta_init'') (\<lambda>beta_init.
      andthen (get_variable ''beta'' (VList [VDim ch]) beta_init) (\<lambda>beta.
      andthen (setattr ''beta'' (VTensor beta)) (\<lambda>_.
      andthen (get_variable ''mean_weight'' (VList [VInt 3]) (VInit (ConstantInit 1)))
        (\<lambda>mean_weight.
      andthen (setattr ''mean_weight_var'' (VTensor mean_weight)) (\<lambda>_.
      andthen (get_variable ''var_weight'' (VList [VInt 3]) (VInit (ConstantInit 1)))
        (\<lambda>var_weight.
      andthen (setattr ''var_weight_var'' (VTensor var_weight)) (\<lambda>_.
      andthen (getattr ''gamma'') (\<lambda>gamma.
      andthen (getattr ''beta'') (\<lambda>beta.
      andthen (getattr ''mean_weight_var'') (\<lambda>mean_weight_var.
      andthen (getattr ''var_weight_var'') (\<lambda>var_weight_var.
      add_weights [gamma, beta, mean_weight_var, var_weight_var])))))))))))))))))"

section \<open>Notions used in the statements\<close>

text \<open>A new layer object in an empty graph.\<close>

definition fresh :: state where
  "fresh = \<lparr>self = Map.empty, variables = [], variable_scope = [], all_layers = [],
             all_params = [], local_weights = []\<rparr>"

text \<open>The documented values of the parameter \<^verbatim>\<open>act\<close>: \<^verbatim>\<open>None\<close> or a function.\<close>

fun is_activation :: "val \<Rightarrow> bool" where
  "is_activation VNone = True"
| "is_activation (VFunc n f) = True"
| "is_activation _ = False"

text \<open>
  \<open>wp m Q E s\<close>: running \<open>m\<close> in state \<open>s\<close> either returns a value and a state that
  satisfy \<open>Q\<close>, or raises an error in a state that satisfy \<open>E\<close>.
\<close>

definition wp :: "'a py \<Rightarrow> ('a \<Rightarrow> state \<Rightarrow> bool) \<Rightarrow> (error \<Rightarrow> state \<Rightarrow> bool) \<Rightarrow> state \<Rightarrow> bool" where
  "wp m Q E s = (case m s of (Inr x, s') \<Rightarrow> Q x s' | (Inl e, s') \<Rightarrow> E e s')"

text \<open>\<open>raises_only P m\<close>: whatever the state, an error raised by \<open>m\<close> satisfies \<open>P\<close>.\<close>

definition raises_only :: "(error \<Rightarrow> bool) \<Rightarrow> 'a py \<Rightarrow> bool" where
  "raises_only P m = (\<forall>s e. fst (m s) = Inl e \<longrightarrow> P e)"

text \<open>
  \<open>keeps_store m\<close>: \<open>m\<close> allocates no variable and registers nothing, whether it returns
  or raises.
\<close>

definition keeps_store :: "'a py \<Rightarrow> bool" where
  "keeps_store m =
     (\<forall>s. variables (snd (m s)) = variables s \<and> all_layers (snd (m s)) = all_layers s
          \<and> all_params (snd (m s)) = all_params s)"

text \<open>
  A static size \<open>d\<close> agrees with the size \<open>n\<close> of an axis of a value: it is unknown, or it
  is \<open>n\<close>.
\<close>

definition agrees :: "int option \<Rightarrow> nat \<Rightarrow> bool" where
  "agrees d n = (case d of None \<Rightarrow> True | Some i \<Rightarrow> i = int n)"

text \<open>
  \<open>channel_vector leaf env c t\<close>: the tensor \<open>t\<close> holds one number for each of \<open>c\<close> channels,
  and the framework knows its size; \<open>channel_value env t k\<close> is its number for channel \<open>k\<close>.
\<close>

definition channel_vector ::
  "(tensor \<Rightarrow> int option list) \<Rightarrow> (tensor \<Rightarrow> ndarray) \<Rightarrow> nat \<Rightarrow> tensor \<Rightarrow> bool" where
  "channel_vector leaf env c t =
     (static_shape leaf t = [Some (int c)]
      \<and> (case eval env t of None \<Rightarrow> False | Some A \<Rightarrow> dims A = [c]))"

definition channel_value :: "(tensor \<Rightarrow> ndarray) \<Rightarrow> tensor \<Rightarrow> nat \<Rightarrow> real" where
  "channel_value env t k = (case eval env t of None \<Rightarrow> 0 | Some A \<Rightarrow> item A [k])"

text \<open>
  The coefficients \<open>inv\<close> and \<open>offset - mean * inv\<close> that \<^verbatim>\<open>batch_normalization\<close> builds, and
  \<open>holds env t c k r\<close>: the value of \<open>t\<close> is a vector of size \<open>c\<close> whose entry \<open>k\<close> is \<open>r\<close>.
\<close>

definition inv_of :: "tensor \<Rightarrow> tensor option \<Rightarrow> real \<Rightarrow> tensor" where
  "inv_of variance scale e =
     (case scale of Some sc \<Rightarrow> Mul (Rsqrt (Add variance (Const e))) sc
      | None \<Rightarrow> Rsqrt (Add variance (Const e)))"

definition shift_of :: "tensor \<Rightarrow> tensor \<Rightarrow> tensor option \<Rightarrow> tensor option \<Rightarrow> real \<Rightarrow> tensor" where
  "shift_of mean variance offset scale e =
     (case offset of Some off \<Rightarrow> Sub off (Mul mean (inv_of variance scale e))
      | None \<Rightarrow> Mul (Neg mean) (inv_of variance scale e))"

definition holds :: "(tensor \<Rightarrow> ndarray) \<Rightarrow> tensor \<Rightarrow> nat \<Rightarrow> nat \<Rightarrow> real \<Rightarrow> bool" where
  "holds env t c k r = (\<exists>A. eval env t = Some A \<and> dims A = [c] \<and> item A [k] = r)"

section \<open>Properties\<close>

subsection \<open>Weakest preconditions\<close>

lemma wp_ret: "wp (ret x) Q E s = Q x s" by (simp add: wp_def ret_def)
lemma wp_raise: "wp (raise e) Q E s = E e s" by (simp add: wp_def raise_def)
lemma wp_andthen: "wp (andthen m f) Q E s = wp m (\<lambda>x. wp (f x) Q E) E s"
  by (simp add: wp_def andthen_def split: prod.splits sum.splits)
lemma wp_getattr: "wp (getattr a) Q E s = (case self s a of None \<Rightarrow> E (AttributeError a) s | Some v \<Rightarrow> Q v s)"
  by (simp add: wp_def getattr_def split: option.splits)
lemma wp_setattr: "wp (setattr a v) Q E s = Q () (s\<lparr>self := (self s)(a \<mapsto> v)\<rparr>)"
  by (simp add: wp_def setattr_def)
lemma wp_lift: "wp (lift r) Q E s = (case r of Inl e \<Rightarrow> E e s | Inr x \<Rightarrow> Q x s)"
  by (simp add: wp_def lift_def raise_def ret_def split: sum.splits)
lemma wp_get_variable: "wp (get_variable n shape init) Q E s =
    (case shape_dims shape of
       None \<Rightarrow> E (ValueError shape_msg) s
     | Some ds \<Rightarrow>
         if valid_name (scope_name (variable_scope s)) n
         then Q (Variable (scoped (variable_scope s) n) ds)
                (s\<lparr>variables := variables s @ [(scoped (variable_scope s) n, shape, init)]\<rparr>)
         else E (ValueError (name_msg n)) s)"
  by (simp add: wp_def get_variable_def split: option.splits)
lemma wp_get_tf_variable: "wp (get_tf_variable n shape init) Q E s =
    (case shape_dims shape of
       None \<Rightarrow> E (ValueError shape_msg) s
     | Some ds \<Rightarrow>
         if valid_name (scope_name (variable_scope s)) n
         then Q (Variable (scoped (variable_scope s) n) ds)
                (s\<lparr>variables := variables s @ [(scoped (variable_scope s) n, shape, init)],
                   local_weights := local_weights s
                      @ [VTensor (Variable (scoped (variable_scope s) n) ds)]\<rparr>)
         else E (ValueError (name_msg n)) s)"
  by (simp add: wp_def get_tf_variable_def andthen_def get_variable_def split: option.splits)
lemma wp_get_local_weights: "wp get_local_weights Q E s = Q (local_weights s) s"
  by (simp add: wp_def get_local_weights_def)
lemma wp_with_variable_scope: "wp (with_variable_scope n m) Q E s =
    (if n \<noteq> [] \<and> \<not> valid_name (scope_name (variable_scope s)) n
     then E (ValueError (name_msg n)) s
     else wp m (\<lambda>x s'. Q x (s'\<lparr>variable_scope := variable_scope s\<rparr>))
               (\<lambda>e s'. E e (s'\<lparr>variable_scope := variable_scope s\<rparr>))
               (s\<lparr>variable_scope := variable_scope s @ [n]\<rparr>))"
  by (simp add: wp_def with_variable_scope_def split: prod.splits sum.splits)
lemma wp_add_layers: "wp (add_layers v) Q E s = Q () (s\<lparr>all_layers := all_layers s @ [v]\<rparr>)"
  by (simp add: wp_def add_layers_def)
lemma wp_add_params: "wp (add_params vs) Q E s = Q () (s\<lparr>all_params := all_params s @ vs\<rparr>)"
  by (simp add: wp_def add_params_def)
lemma wp_add_weights: "wp (add_weights vs) Q E s = Q () (s\<lparr>all_params := all_params s @ vs\<rparr>)"
  by (simp add: wp_def add_weights_def)
lemma wp_logging_info: "wp (logging_info m) Q E s = Q () s"
  by (simp add: wp_def logging_info_def ret_def)
lemma wp_call: "wp (call f x) Q E s = (case f of VFunc n g \<Rightarrow> Q (g x) s | _ \<Rightarrow> E (TypeError ''object is not callable'') s)"
  by (simp add: wp_def call_def raise_def ret_def split: val.splits)
lemma wp_do_all_Nil: "wp (do_all []) Q E s = Q () s" by (simp add: wp_def ret_def)
lemma wp_do_all_Cons: "wp (do_all (m # ms)) Q E s = wp m (\<lambda>_. wp (do_all ms) Q E) E s"
  by (simp add: wp_andthen)
lemma wp_Layer_init_Nil: "wp (Layer_init []) Q E s = Q () s" by (simp add: wp_def Layer_init_def ret_def)
lemma wp_Layer_init_Cons: "wp (Layer_init ((k, v) # kwargs)) Q E s = wp (Layer_init kwargs) Q E (s\<lparr>self := (self s)(k \<mapsto> v)\<rparr>)"
  by (simp add: Layer_init_def wp_andthen wp_setattr)
lemma wp_if: "wp (if c then a else b) Q E s = (if c then wp a Q E s else wp b Q E s)"
  by simp
lemma wp_case_prod: "wp (case p of (a, b) \<Rightarrow> f a b) Q E s = (case p of (a, b) \<Rightarrow> wp (f a b) Q E s)"
  by (simp split: prod.splits)

lemmas wp_simps = wp_ret wp_raise wp_andthen wp_getattr wp_setattr wp_lift wp_get_variable
  wp_get_tf_variable wp_get_local_weights wp_with_variable_scope wp_add_layers wp_add_params wp_add_weights wp_logging_info
  wp_do_all_Nil wp_do_all_Cons wp_Layer_init_Nil wp_Layer_init_Cons wp_if wp_case_prod

lemma fst_run: "(fst (m s) = r) = wp m (\<lambda>x _. r = Inr x) (\<lambda>e _. r = Inl e) s"
  by (auto simp: wp_def split: prod.splits sum.splits)

lemma wp_outputs_of:
  "wp (outputs_of (VLayer t)) Q E s = Q t s"
  by (simp add: outputs_of_def wp_ret)

lemma wp_dunder_name:
  "wp (dunder_name (VFunc n f)) Q E s = Q n s"
  by (simp add: dunder_name_def wp_ret)

subsection \<open>The errors a method can raise\<close>

lemma raises_only_ret: "raises_only P (ret x)" by (simp add: raises_only_def ret_def)
lemma raises_only_raise: "P e \<Longrightarrow> raises_only P (raise e)" by (simp add: raises_only_def raise_def)
lemma raises_only_andthen:
  "raises_only P m \<Longrightarrow> (\<And>x. raises_only P (f x)) \<Longrightarrow> raises_only P (andthen m f)"
  by (auto simp: raises_only_def andthen_def split: prod.splits sum.splits) (metis fst_conv)+
lemma raises_only_getattr: "P (AttributeError a) \<Longrightarrow> raises_only P (getattr a)"
  by (auto simp: raises_only_def getattr_def split: option.splits)
lemma raises_only_setattr: "raises_only P (setattr a v)" by (simp add: raises_only_def setattr_def)
lemma raises_only_lift: "(\<And>e. r = Inl e \<Longrightarrow> P e) \<Longrightarrow> raises_only P (lift r)"
  by (auto simp: raises_only_def lift_def raise_def ret_def split: sum.splits)
lemma raises_only_get_variable:
  "P (ValueError shape_msg) \<Longrightarrow> P (ValueError (name_msg n)) \<Longrightarrow> raises_only P (get_variable n shape init)"
  by (auto simp: raises_only_def get_variable_def split: option.splits if_splits)
lemma raises_only_with_variable_scope:
  "P (ValueError (name_msg n)) \<Longrightarrow> raises_only P m \<Longrightarrow> raises_only P (with_variable_scope n m)"
  unfolding raises_only_def with_variable_scope_def
  by (auto split: prod.splits if_splits) (metis fst_conv)+
lemma raises_only_add_layers: "raises_only P (add_layers v)" by (simp add: raises_only_def add_layers_def)
lemma raises_only_add_params: "raises_only P (add_params v)" by (simp add: raises_only_def add_params_def)
lemma raises_only_add_weights: "raises_only P (add_weights v)" by (simp add: raises_only_def add_weights_def)
lemma raises_only_logging_info: "raises_only P (logging_info v)" by (simp add: raises_only_def logging_info_def ret_def)
lemma raises_only_call: "P (TypeError ''object is not callable'') \<Longrightarrow> raises_only P (call f x)"
  by (auto simp: raises_only_def call_def raise_def ret_def split: val.splits)
lemma raises_only_dunder_name: "P (AttributeError ''__name__'') \<Longrightarrow> raises_only P (dunder_name f)"
  by (auto simp: raises_only_def dunder_name_def raise_def ret_def split: val.splits)
lemma raises_only_outputs_of: "P (AttributeError ''outputs'') \<Longrightarrow> raises_only P (outputs_of f)"
  by (auto simp: raises_only_def outputs_of_def raise_def ret_def split: val.splits)
lemma raises_only_if:
  "(c \<Longrightarrow> raises_only P a) \<Longrightarrow> (\<not> c \<Longrightarrow> raises_only P b) \<Longrightarrow> raises_only P (if c then a else b)"
  by simp
lemma raises_only_case_prod:
  "(\<And>a b. raises_only P (f a b)) \<Longrightarrow> raises_only P (case p of (a, b) \<Rightarrow> f a b)"
  by (simp split: prod.splits)
lemma raises_only_Let: "raises_only P (f x) \<Longrightarrow> raises_only P (Let x f)" by simp
lemma raises_only_do_all_Nil: "raises_only P (do_all [])" by (simp add: raises_only_ret)
lemma raises_only_do_all_Cons:
  "raises_only P m \<Longrightarrow> raises_only P (do_all ms) \<Longrightarrow> raises_only P (do_all (m # ms))"
  by (simp add: raises_only_andthen)
lemma raises_only_Layer_init: "raises_only P (Layer_init kwargs)"
  unfolding Layer_init_def by (induction kwargs) (auto intro!: raises_only_andthen raises_only_ret raises_only_setattr)

lemmas raises_only_intros = raises_only_ret raises_only_raise raises_only_andthen raises_only_getattr
  raises_only_setattr raises_only_lift raises_only_get_variable raises_only_with_variable_scope
  raises_only_add_layers raises_only_add_params raises_only_add_weights raises_only_logging_info
  raises_only_call raises_only_dunder_name raises_only_outputs_of raises_only_if raises_only_case_prod raises_only_Let
  raises_only_do_all_Nil raises_only_do_all_Cons raises_only_Layer_init

lemma get_shape_error: "get_shape shp v = Inl e \<Longrightarrow> e = AttributeError ''get_shape''"
  by (auto simp: get_shape_def split: val.splits)
lemma convert_to_tensor_error: "convert_to_tensor v = Inl e \<Longrightarrow> e = ValueError ''None values not supported.'' \<or> e = TypeError ''Failed to convert object to Tensor''"
  by (auto simp: convert_to_tensor_def split: val.splits)

lemma getitem_error: "getitem xs i = Inl e \<Longrightarrow> e = IndexError ''index out of range''"
  by (auto simp: getitem_def split: if_splits)

lemma to_channel_first_bias_error:
  "to_channel_first_bias shp b = Inl e \<Longrightarrow>
     e = IndexError ''index out of range'' \<or> e = TypeError ''__int__ returned non-int (type NoneType)''"
  by (auto simp: to_channel_first_bias_def int_of_dim_def dest: getitem_error split: sum.splits option.splits)

lemma broadcast_static_error: "broadcast_static as bs = Inl e \<Longrightarrow> e = ValueError broadcast_msg"
  by (auto simp: broadcast_static_def split: option.splits)

lemma try_then_error:
  "try_then r f = Inl e \<Longrightarrow> r = Inl e \<or> (\<exists>x. r = Inr x \<and> f x = Inl e)"
  by (cases r) (simp_all add: try_then_def)

lemma tf_add_error: "tf_add shp x y = Inl e \<Longrightarrow> e = ValueError broadcast_msg"
  by (auto simp: tf_add_def dest!: try_then_error broadcast_static_error)
lemma tf_sub_error: "tf_sub shp x y = Inl e \<Longrightarrow> e = ValueError broadcast_msg"
  by (auto simp: tf_sub_def dest!: try_then_error broadcast_static_error)
lemma tf_mul_error: "tf_mul shp x y = Inl e \<Longrightarrow> e = ValueError broadcast_msg"
  by (auto simp: tf_mul_def dest!: try_then_error broadcast_static_error)

lemma bias_scale_error:
  "bias_scale shp x b f = Inl e \<Longrightarrow>
     e = ValueError broadcast_msg \<or> e = IndexError ''index out of range''
     \<or> e = TypeError ''__int__ returned non-int (type NoneType)''
     \<or> (f \<noteq> ''NHWC'' \<and> f \<noteq> ''NCHW'' \<and> e = ValueError (data_format_msg f))"
  by (auto simp: bias_scale_def split: if_splits
        dest!: try_then_error tf_mul_error to_channel_first_bias_error)

lemma bias_add_error:
  "bias_add shp x b f = Inl e \<Longrightarrow>
     e = ValueError broadcast_msg \<or> e = IndexError ''index out of range''
     \<or> e = TypeError ''__int__ returned non-int (type NoneType)''
     \<or> (f \<noteq> ''NHWC'' \<and> f \<noteq> ''NCHW'' \<and> e = ValueError (data_format_msg f))"
  by (auto simp: bias_add_def split: if_splits
        dest!: try_then_error tf_add_error to_channel_first_bias_error)

lemma batch_normalization_error:
  "batch_normalization shp x m v b g e d = Inl err \<Longrightarrow>
     err = KeyError d \<or> err = IndexError ''index out of range''
     \<or> err = TypeError ''__int__ returned non-int (type NoneType)''
     \<or> err = ValueError broadcast_msg"
  by (auto simp: batch_normalization_def df_def Let_def
        split: option.splits if_splits
        dest!: try_then_error tf_add_error tf_sub_error tf_mul_error
               bias_scale_error bias_add_error)

subsection \<open>Methods that leave the variable store alone\<close>

lemma keeps_store_ret: "keeps_store (ret x)" by (simp add: keeps_store_def ret_def)
lemma keeps_store_raise: "keeps_store (raise e)" by (simp add: keeps_store_def raise_def)
lemma keeps_store_andthen:
  "keeps_store m \<Longrightarrow> (\<And>x. keeps_store (f x)) \<Longrightarrow> keeps_store (andthen m f)"
  unfolding keeps_store_def andthen_def
  by (auto split: prod.splits sum.splits) (metis snd_conv)+
lemma keeps_store_getattr: "keeps_store (getattr a)"
  by (auto simp: keeps_store_def getattr_def split: option.splits)
lemma keeps_store_setattr: "keeps_store (setattr a v)" by (simp add: keeps_store_def setattr_def)
lemma keeps_store_lift: "keeps_store (lift r)"
  by (auto simp: keeps_store_def lift_def raise_def ret_def split: sum.splits)
lemma keeps_store_logging_info: "keeps_store (logging_info v)" by (simp add: keeps_store_def logging_info_def ret_def)
lemma keeps_store_call: "keeps_store (call f x)"
  by (auto simp: keeps_store_def call_def raise_def ret_def split: val.splits)
lemma keeps_store_dunder_name: "keeps_store (dunder_name f)"
  by (auto simp: keeps_store_def dunder_name_def raise_def ret_def split: val.splits)
lemma keeps_store_outputs_of: "keeps_store (outputs_of f)"
  by (auto simp: keeps_store_def outputs_of_def raise_def ret_def split: val.splits)
lemma keeps_store_if:
  "(c \<Longrightarrow> keeps_store a) \<Longrightarrow> (\<not> c \<Longrightarrow> keeps_store b) \<Longrightarrow> keeps_store (if c then a else b)"
  by simp
lemma keeps_store_do_all_Nil: "keeps_store (do_all [])" by (simp add: keeps_store_ret)
lemma keeps_store_do_all_Cons:
  "keeps_store m \<Longrightarrow> keeps_store (do_all ms) \<Longrightarrow> keeps_store (do_all (m # ms))"
  by (simp add: keeps_store_andthen)
lemma keeps_store_Layer_init: "keeps_store (Layer_init kwargs)"
  unfolding Layer_init_def
  by (induction kwargs) (auto intro!: keeps_store_andthen keeps_store_ret keeps_store_setattr)

lemmas keeps_store_intros = keeps_store_ret keeps_store_raise keeps_store_andthen keeps_store_getattr
  keeps_store_setattr keeps_store_lift keeps_store_logging_info keeps_store_call
  keeps_store_dunder_name keeps_store_outputs_of keeps_store_if keeps_store_do_all_Nil
  keeps_store_do_all_Cons keeps_store_Layer_init

section \<open>Parameter validation of the atrous convolution layers\<close>

text \<open>
  Claim C1. For every padding string \<open>p\<close>, the constructors of \<^verbatim>\<open>AtrousConv2dLayer\<close> and
  \<^verbatim>\<open>AtrousDeConv2dLayer\<close> raise the \<^verbatim>\<open>ValueError\<close> of the padding check if and only if
  \<open>p\<close>, put in upper case by the constructor, is neither \<^verbatim>\<open>SAME\<close> nor \<^verbatim>\<open>VALID\<close>;
  otherwise construction returns normally.
\<close>

theorem atrous_padding_check:
  "fst (AtrousConv2dLayer_init prev_layer n_filter filter_size rate p W_init b_init
          W_init_args b_init_args act name s)
     = (if upper p = ''SAME'' \<or> upper p = ''VALID'' then Inr ()
        else Inl (ValueError padding_msg))
   \<and> fst (AtrousDeConv2dLayer_init prev_layer shape rate p W_init b_init
          W_init_args b_init_args act name s)
     = (if upper p = ''SAME'' \<or> upper p = ''VALID'' then Inr ()
        else Inl (ValueError padding_msg))"
  by (simp add: fst_run AtrousConv2dLayer_init_def AtrousDeConv2dLayer_init_def Let_def wp_simps)

theorem atrous_padding_check_witness:
  "fst (AtrousConv2dLayer_init VNone (VInt 32) (VList [VInt 3, VInt 3]) (VInt 2) ''BOGUS''
          VNone VNone VNone VNone VNone (VStr ''atrous_2d'') fresh)
     = Inl (ValueError padding_msg)
   \<and> fst (AtrousDeConv2dLayer_init VNone (VList [VInt 3, VInt 3, VInt 128, VInt 256]) (VInt 2)
          ''same'' VNone VNone VNone VNone VNone (VStr ''atrous_2d_transpose'') fresh)
     = Inr ()"
  using atrous_padding_check [where p = "''BOGUS''" and s = fresh]
    atrous_padding_check [where p = "''same''" and s = fresh]
  by (simp add: upper_def upper_char_def)

section \<open>The decay check of BatchNorm\<close>

lemma BatchNorm_init_no_decay_error:
  assumes "\<not> (d < 0 \<or> 1 < d)"
  shows "raises_only (\<lambda>e. e \<noteq> Exception decay_msg)
           (BatchNorm_init shp prev_layer d eps act is_train beta_init gamma_init
              moving_mean_init data_format name)"
  using assms
  unfolding BatchNorm_init_def BatchNorm_scope_body_def Layer_init_prev_def
    act_name_or_default_def apply_activation_def
  by (intro raises_only_intros)
     (auto dest: getitem_error batch_normalization_error get_shape_error convert_to_tensor_error)

lemma BatchNorm_init_bad_decay_keeps_store:
  assumes "d < 0 \<or> 1 < d"
  shows "keeps_store (BatchNorm_init shp prev_layer d eps act is_train beta_init gamma_init
              moving_mean_init data_format name)"
  using assms
  unfolding BatchNorm_init_def Layer_init_prev_def act_name_or_default_def
  by (intro keeps_store_intros) auto

lemma BatchNorm_init_bad_decay:
  assumes "is_activation act" "d < 0 \<or> 1 < d"
  shows "fst (BatchNorm_init shp (VLayer t) d eps act is_train beta_init gamma_init
              moving_mean_init data_format name s) = Inl (Exception decay_msg)"
  using assms
  by (cases act)
     (simp_all add: fst_run BatchNorm_init_def Layer_init_prev_def act_name_or_default_def
        wp_simps wp_outputs_of wp_dunder_name)

text \<open>
  Claim C3. For every real decay, the constructor of \<^verbatim>\<open>BatchNorm\<close> (given a previous layer
  and an activation that is \<^verbatim>\<open>None\<close> or a function) raises its decay exception if and only
  if the decay is below 0 or above 1; the bounds 0 and 1 are accepted.
\<close>

theorem BatchNorm_decay_check:
  assumes "is_activation act"
  shows "(fst (BatchNorm_init shp (VLayer t) decay epsilon act is_train beta_init gamma_init
                 moving_mean_init data_format name s) = Inl (Exception decay_msg))
         = (decay < 0 \<or> 1 < decay)"
proof
  assume raised: "fst (BatchNorm_init shp (VLayer t) decay epsilon act is_train beta_init
      gamma_init moving_mean_init data_format name s) = Inl (Exception decay_msg)"
  show "decay < 0 \<or> 1 < decay"
  proof (rule ccontr)
    assume "\<not> (decay < 0 \<or> 1 < decay)"
    from BatchNorm_init_no_decay_error [OF this] raised show False
      unfolding raises_only_def by blast
  qed
next
  assume "decay < 0 \<or> 1 < decay"
  with assms show "fst (BatchNorm_init shp (VLayer t) decay epsilon act is_train beta_init
      gamma_init moving_mean_init data_format name s) = Inl (Exception decay_msg)"
    by (rule BatchNorm_init_bad_decay)
qed

theorem BatchNorm_decay_check_witness:
  "is_activation VNone
   \<and> fst (BatchNorm_init (\<lambda>_. [None, Some 8, Some 8, Some 3]) (VLayer (Placeholder ''x''))
          2 (1 / 100000) VNone False (VInit zeros_initializer_class)
          (VInit (RandomNormal 1 (2 / 1000))) (VInit Zeros) ''channels_last'' ''batchnorm'' fresh)
       = Inl (Exception decay_msg)
   \<and> fst (BatchNorm_init (\<lambda>_. [None, Some 8, Some 8, Some 3]) (VLayer (Placeholder ''x''))
          1 (1 / 100000) VNone False (VInit zeros_initializer_class)
          (VInit (RandomNormal 1 (2 / 1000))) (VInit Zeros) ''channels_last'' ''batchnorm'' fresh)
       \<noteq> Inl (Exception decay_msg)
   \<and> fst (BatchNorm_init (\<lambda>_. [None, Some 8, Some 8, Some 3]) (VLayer (Placeholder ''x''))
          0 (1 / 100000) VNone False (VInit zeros_initializer_class)
          (VInit (RandomNormal 1 (2 / 1000))) (VInit Zeros) ''channels_last'' ''batchnorm'' fresh)
       \<noteq> Inl (Exception decay_msg)"
  using BatchNorm_decay_check [where act = VNone and decay = 2]
    BatchNorm_decay_check [where act = VNone and decay = 1]
    BatchNorm_decay_check [where act = VNone and decay = 0]
  by simp

section \<open>A failed validation allocates nothing\<close>

lemma atrous_conv_bad_padding:
  "wp (AtrousConv2dLayer_init prev_layer n_filter filter_size rate p W_init b_init
          W_init_args b_init_args act name) (\<lambda>_ _. True) (\<lambda>e s'. s' = s) s"
  by (simp add: AtrousConv2dLayer_init_def Let_def wp_simps)

lemma atrous_deconv_bad_padding:
  "wp (AtrousDeConv2dLayer_init prev_layer shape rate p W_init b_init
          W_init_args b_init_args act name) (\<lambda>_ _. True) (\<lambda>e s'. s' = s) s"
  by (simp add: AtrousDeConv2dLayer_init_def Let_def wp_simps)

lemma wp_error_state: "wp m (\<lambda>_ _. True) (\<lambda>e s'. P s') s \<Longrightarrow> fst (m s) = Inl e \<Longrightarrow> P (snd (m s))"
  by (auto simp: wp_def split: prod.splits sum.splits)

text \<open>
  Claim C7. When the padding check of \<^verbatim>\<open>AtrousConv2dLayer\<close> or \<^verbatim>\<open>AtrousDeConv2dLayer\<close>
  raises, the state is exactly the state before the call; when the decay check of
  \<^verbatim>\<open>BatchNorm\<close> raises, no variable has been allocated and nothing has been registered
  with the layer (only the base class's constructor has run).
\<close>

theorem validation_failure_allocates_nothing:
  "(fst (AtrousConv2dLayer_init prev_layer n_filter filter_size rate p W_init b_init
          W_init_args b_init_args act name s) = Inl (ValueError padding_msg)
      \<longrightarrow> snd (AtrousConv2dLayer_init prev_layer n_filter filter_size rate p W_init b_init
          W_init_args b_init_args act name s) = s)
   \<and> (fst (AtrousDeConv2dLayer_init prev_layer shape rate p W_init b_init
          W_init_args b_init_args act name s) = Inl (ValueError padding_msg)
      \<longrightarrow> snd (AtrousDeConv2dLayer_init prev_layer shape rate p W_init b_init
          W_init_args b_init_args act name s) = s)
   \<and> (fst (BatchNorm_init shp prev decay epsilon bn_act is_train beta_init gamma_init
          moving_mean_init data_format bn_name s) = Inl (Exception decay_msg)
      \<longrightarrow> variables (snd (BatchNorm_init shp prev decay epsilon bn_act is_train beta_init
              gamma_init moving_mean_init data_format bn_name s)) = variables s
        \<and> all_layers (snd (BatchNorm_init shp prev decay epsilon bn_act is_train beta_init
              gamma_init moving_mean_init data_format bn_name s)) = all_layers s
        \<and> all_params (snd (BatchNorm_init shp prev decay epsilon bn_act is_train beta_init
              gamma_init moving_mean_init data_format bn_name s)) = all_params s)"
proof (intro conjI impI)
  assume "fst (AtrousConv2dLayer_init prev_layer n_filter filter_size rate p W_init b_init
          W_init_args b_init_args act name s) = Inl (ValueError padding_msg)"
  with atrous_conv_bad_padding
  show "snd (AtrousConv2dLayer_init prev_layer n_filter filter_size rate p W_init b_init
          W_init_args b_init_args act name s) = s"
    by (rule wp_error_state)
next
  assume "fst (AtrousDeConv2dLayer_init prev_layer shape rate p W_init b_init
          W_init_args b_init_args act name s) = Inl (ValueError padding_msg)"
  with atrous_deconv_bad_padding
  show "snd (AtrousDeConv2dLayer_init prev_layer shape rate p W_init b_init
          W_init_args b_init_args act name s) = s"
    by (rule wp_error_state)
next
  assume raised: "fst (BatchNorm_init shp prev decay epsilon bn_act is_train beta_init gamma_init
          moving_mean_init data_format bn_name s) = Inl (Exception decay_msg)"
  have bad: "decay < 0 \<or> 1 < decay"
  proof (rule ccontr)
    assume "\<not> (decay < 0 \<or> 1 < decay)"
    from BatchNorm_init_no_decay_error [OF this] raised show False
      unfolding raises_only_def by blast
  qed
  from BatchNorm_init_bad_decay_keeps_store [OF bad]
  show "variables (snd (BatchNorm_init shp prev decay epsilon bn_act is_train beta_init
              gamma_init moving_mean_init data_format bn_name s)) = variables s"
   and "all_layers (snd (BatchNorm_init shp prev decay epsilon bn_act is_train beta_init
              gamma_init moving_mean_init data_format bn_name s)) = all_layers s"
   and "all_params (snd (BatchNorm_init shp prev decay epsilon bn_act is_train beta_init
              gamma_init moving_mean_init data_format bn_name s)) = all_params s"
    unfolding keeps_store_def by blast+
qed

theorem validation_failure_allocates_nothing_witness:
  "snd (AtrousConv2dLayer_init VNone (VInt 32) (VList [VInt 3, VInt 3]) (VInt 2) ''BOGUS''
          VNone VNone VNone VNone VNone (VStr ''atrous_2d'') fresh) = fresh
   \<and> snd (AtrousDeConv2dLayer_init VNone (VList [VInt 3, VInt 3, VInt 128, VInt 256]) (VInt 2)
          ''BOGUS'' VNone VNone VNone VNone VNone (VStr ''atrous_2d'') fresh) = fresh
   \<and> variables (snd (BatchNorm_init (\<lambda>_. [None, Some 8, Some 8, Some 3])
          (VLayer (Placeholder ''x'')) 2 (1 / 100000) VNone False (VInit zeros_initializer_class)
          (VInit (RandomNormal 1 (2 / 1000))) (VInit Zeros) ''channels_last'' ''batchnorm''
          fresh)) = []
   \<and> all_layers (snd (BatchNorm_init (\<lambda>_. [None, Some 8, Some 8, Some 3])
          (VLayer (Placeholder ''x'')) 2 (1 / 100000) VNone False (VInit zeros_initializer_class)
          (VInit (RandomNormal 1 (2 / 1000))) (VInit Zeros) ''channels_last'' ''batchnorm''
          fresh)) = []
   \<and> all_params (snd (BatchNorm_init (\<lambda>_. [None, Some 8, Some 8, Some 3])
          (VLayer (Placeholder ''x'')) 2 (1 / 100000) VNone False (VInit zeros_initializer_class)
          (VInit (RandomNormal 1 (2 / 1000))) (VInit Zeros) ''channels_last'' ''batchnorm''
          fresh)) = []"
proof -
  have a: "fst (AtrousConv2dLayer_init VNone (VInt 32) (VList [VInt 3, VInt 3]) (VInt 2) ''BOGUS''
          VNone VNone VNone VNone VNone (VStr ''atrous_2d'') fresh) = Inl (ValueError padding_msg)"
    by (simp add: fst_run AtrousConv2dLayer_init_def Let_def wp_simps upper_def upper_char_def)
  have b: "fst (AtrousDeConv2dLayer_init VNone (VList [VInt 3, VInt 3, VInt 128, VInt 256]) (VInt 2)
          ''BOGUS'' VNone VNone VNone VNone VNone (VStr ''atrous_2d'') fresh)
          = Inl (ValueError padding_msg)"
    by (simp add: fst_run AtrousDeConv2dLayer_init_def Let_def wp_simps upper_def upper_char_def)
  have c: "fst (BatchNorm_init (\<lambda>_. [None, Some 8, Some 8, Some 3])
          (VLayer (Placeholder ''x'')) 2 (1 / 100000) VNone False (VInit zeros_initializer_class)
          (VInit (RandomNormal 1 (2 / 1000))) (VInit Zeros) ''channels_last'' ''batchnorm''
          fresh) = Inl (Exception decay_msg)"
    by (simp add: fst_run BatchNorm_init_def Layer_init_prev_def act_name_or_default_def
        wp_simps wp_outputs_of)
  from a b c show ?thesis
    using validation_failure_allocates_nothing [where p = "''BOGUS''" and s = fresh
        and prev_layer = VNone and n_filter = "VInt 32" and filter_size = "VList [VInt 3, VInt 3]"
        and rate = "VInt 2" and W_init = VNone and b_init = VNone and W_init_args = VNone
        and b_init_args = VNone and act = VNone and name = "VStr ''atrous_2d''"
        and shape = "VList [VInt 3, VInt 3, VInt 128, VInt 256]"
        and shp = "\<lambda>_. [None, Some 8, Some 8, Some 3]" and prev = "VLayer (Placeholder ''x'')"
        and decay = 2 and epsilon = "1 / 100000" and bn_act = VNone and is_train = False
        and beta_init = "VInit zeros_initializer_class"
        and gamma_init = "VInit (RandomNormal 1 (2 / 1000))" and moving_mean_init = "VInit Zeros"
        and data_format = "''channels_last''" and bn_name = "''batchnorm''"]
    by (simp, simp add: fresh_def)
qed

section \<open>GroupNorm: validation and the misspelt attribute\<close>

lemma wp_never_returns: "wp m (\<lambda>_ _. False) E s \<Longrightarrow> \<exists>e s'. m s = (Inl e, s') \<and> E e s'"
  by (auto simp: wp_def split: prod.splits sum.splits)

lemma valid_name_gamma: "valid_name scope ''gamma''"
  by (simp add: valid_name_def name_start_def name_rest_def)

lemma valid_name_beta: "valid_name scope ''beta''"
  by (simp add: valid_name_def name_start_def name_rest_def)


lemmas GroupNorm_prims = get_shape_def getitem_def py_floordiv_def py_gt_def py_mod_def
  int_vector_def int_or_none_def shape_dims_def valid_name_gamma valid_name_beta

lemma GroupNorm_build_rejects:
  assumes shape: "shp x = [n, d1, d2, d3]"
      and fmt: "self s ''data_format'' = Some (VStr data_format)"
      and groups: "self s ''groups'' = Some (VInt g)"
      and channels: "(if data_format = ''channels_first'' then d1 else d3) = Some c"
      and bad: "c mod g \<noteq> 0 \<or> g > c"
  shows "wp (GroupNorm_build shp (VTensor x)) (\<lambda>_ _. False)
           (\<lambda>e s'. variables s' = variables s \<and> all_layers s' = all_layers s
                  \<and> all_params s' = all_params s
                  \<and> ((data_format = ''channels_last'' \<or> data_format = ''channels_first'') \<and> g \<noteq> 0
                       \<and> (\<exists>t. self s ''inputs'' = Some (VTensor t))
                     \<longrightarrow> e = ValueError (if g > c then groups_msg else commensurate_msg))) s"
proof -
  consider (last) "data_format = ''channels_last''" | (first) "data_format = ''channels_first''"
    | (other) "data_format \<noteq> ''channels_last''" "data_format \<noteq> ''channels_first''" by blast
  then show ?thesis
  proof cases
    case last
    with channels have d3: "d3 = Some c" by simp
    show ?thesis
    proof (cases "g > c")
      case True
      then show ?thesis using shape fmt groups d3 last
        by (auto simp add: GroupNorm_build_def GroupNorm_prims convert_to_tensor_def wp_simps split: sum.split option.split)
    next
      case False
      with bad have "c mod g \<noteq> 0" by simp
      with False show ?thesis using shape fmt groups d3 last
        by (auto simp add: GroupNorm_build_def GroupNorm_prims convert_to_tensor_def wp_simps split: sum.split option.split)
    qed
  next
    case first
    with channels have d1: "d1 = Some c" by simp
    show ?thesis
    proof (cases "g > c")
      case True
      then show ?thesis using shape fmt groups d1 first
        by (auto simp add: GroupNorm_build_def GroupNorm_prims convert_to_tensor_def wp_simps split: sum.split option.split)
    next
      case False
      with bad have "c mod g \<noteq> 0" by simp
      with False show ?thesis using shape fmt groups d1 first
        by (auto simp add: GroupNorm_build_def GroupNorm_prims convert_to_tensor_def wp_simps split: sum.split option.split)
    qed
  next
    case other
    then show ?thesis using shape fmt
      by (simp add: GroupNorm_build_def GroupNorm_prims wp_simps split: sum.split option.split)
  qed
qed

lemma GroupNorm_build_fails:
  assumes "self s ''bata'' = None"
  shows "wp (GroupNorm_build shp inputs) (\<lambda>_ _. False) (\<lambda>_ _. True) s"
  using assms
  by (simp add: GroupNorm_build_def wp_simps split: sum.split option.split)

lemma GroupNorm_build_reaches_bata:
  assumes unbound: "self s ''bata'' = None"
      and shape: "shp x = [n, d1, d2, d3]"
      and fmt: "self s ''data_format'' = Some (VStr data_format)"
      and valid: "data_format = ''channels_last'' \<or> data_format = ''channels_first''"
      and inputs: "self s ''inputs'' = Some (VTensor t)"
      and groups: "self s ''groups'' = Some (VInt g)"
      and channels: "(if data_format = ''channels_first'' then d1 else d3) = Some c"
      and ok: "g \<noteq> 0" "g \<le> c" "c mod g = 0"
  shows "wp (GroupNorm_build shp (VTensor x)) (\<lambda>_ _. False)
           (\<lambda>e s'. e = AttributeError ''bata''
                  \<and> map fst (variables s') = map fst (variables s)
                       @ [scoped (variable_scope s) ''gamma'', scoped (variable_scope s) ''beta'']
                  \<and> all_layers s' = all_layers s \<and> all_params s' = all_params s) s"
  using valid
proof
  assume last: "data_format = ''channels_last''"
  with channels have "d3 = Some c" by simp
  with last show ?thesis using unbound shape fmt inputs groups ok
    by (simp add: GroupNorm_build_def GroupNorm_prims convert_to_tensor_def wp_simps)
next
  assume first: "data_format = ''channels_first''"
  with channels have "d1 = Some c" by simp
  with first show ?thesis using unbound shape fmt inputs groups ok
    by (simp add: GroupNorm_build_def GroupNorm_prims convert_to_tensor_def wp_simps)
qed

lemma wp_returns: "wp m (\<lambda>x s'. x = v \<and> s' = t) (\<lambda>_ _. False) s \<Longrightarrow> m s = (Inr v, t)"
  by (auto simp: wp_def split: prod.splits sum.splits)

lemma wp_act_name_or_default:
  "is_activation act \<Longrightarrow> self s ''act'' = Some act \<Longrightarrow>
     wp act_name_or_default Q E s = Q (case act of VFunc n f \<Rightarrow> n | _ \<Rightarrow> ''No Activation'') s"
  by (cases act) (simp_all add: act_name_or_default_def wp_simps wp_dunder_name)

lemma GroupNorm_init_run:
  "is_activation act \<Longrightarrow>
   GroupNorm_init g eps act data_format name s =
     (Inr (), s\<lparr>self := (self s)(''name'' \<mapsto> name, ''groups'' \<mapsto> VInt g,
                  ''epsilon'' \<mapsto> VFloat eps, ''act'' \<mapsto> act,
                  ''data_format'' \<mapsto> VStr data_format)\<rparr>)"
  by (rule wp_returns) (simp add: GroupNorm_init_def wp_simps wp_act_name_or_default)

text \<open>
  Claim C9. \<^verbatim>\<open>GroupNorm.build\<close> stores the offset as \<^verbatim>\<open>self.beta\<close> and reads \<^verbatim>\<open>self.bata\<close>.
  On every object that has no attribute \<^verbatim>\<open>bata\<close> (the constructor sets none) the call raises,
  whatever the input. When the validation passes (a 4-D input, a valid data format, groups
  that divide the channel count) the error is the \<^verbatim>\<open>AttributeError\<close> for \<^verbatim>\<open>bata\<close>, raised
  after the variables \<^verbatim>\<open>gamma\<close> and \<^verbatim>\<open>beta\<close> have been allocated and before any weight is
  registered.
\<close>

theorem GroupNorm_build_never_completes:
  assumes "self s ''bata'' = None"
  shows "(\<exists>e s'. GroupNorm_build shp inputs s = (Inl e, s'))
       \<and> (shp x = [n, d1, d2, d3] \<and> inputs = VTensor x
          \<and> self s ''data_format'' = Some (VStr data_format)
          \<and> (data_format = ''channels_last'' \<or> data_format = ''channels_first'')
          \<and> self s ''inputs'' = Some (VTensor t) \<and> self s ''groups'' = Some (VInt g)
          \<and> (if data_format = ''channels_first'' then d1 else d3) = Some c
          \<and> g \<noteq> 0 \<and> g \<le> c \<and> c mod g = 0
          \<longrightarrow> (\<exists>s'. GroupNorm_build shp inputs s = (Inl (AttributeError ''bata''), s')
                 \<and> map fst (variables s') = map fst (variables s)
                      @ [scoped (variable_scope s) ''gamma'', scoped (variable_scope s) ''beta'']
                 \<and> all_layers s' = all_layers s \<and> all_params s' = all_params s))"
proof (intro conjI impI)
  from wp_never_returns [OF GroupNorm_build_fails [OF assms, of shp inputs]]
  show "\<exists>e s'. GroupNorm_build shp inputs s = (Inl e, s')"
    by blast
next
  assume h: "shp x = [n, d1, d2, d3] \<and> inputs = VTensor x
          \<and> self s ''data_format'' = Some (VStr data_format)
          \<and> (data_format = ''channels_last'' \<or> data_format = ''channels_first'')
          \<and> self s ''inputs'' = Some (VTensor t) \<and> self s ''groups'' = Some (VInt g)
          \<and> (if data_format = ''channels_first'' then d1 else d3) = Some c
          \<and> g \<noteq> 0 \<and> g \<le> c \<and> c mod g = 0"
  then have shape: "shp x = [n, d1, d2, d3]" and inp: "inputs = VTensor x"
    and fmt: "self s ''data_format'' = Some (VStr data_format)"
    and valid: "data_format = ''channels_last'' \<or> data_format = ''channels_first''"
    and self_inputs: "self s ''inputs'' = Some (VTensor t)"
    and groups: "self s ''groups'' = Some (VInt g)"
    and channels: "(if data_format = ''channels_first'' then d1 else d3) = Some c"
    and ok: "g \<noteq> 0" "g \<le> c" "c mod g = 0"
    by blast+
  from wp_never_returns [OF GroupNorm_build_reaches_bata
      [where shp = shp and x = x, OF assms shape fmt valid self_inputs groups channels ok]]
  show "\<exists>s'. GroupNorm_build shp inputs s = (Inl (AttributeError ''bata''), s')
                 \<and> map fst (variables s') = map fst (variables s)
                      @ [scoped (variable_scope s) ''gamma'', scoped (variable_scope s) ''beta'']
                 \<and> all_layers s' = all_layers s \<and> all_params s' = all_params s"
    unfolding inp by blast
qed

theorem GroupNorm_build_never_completes_witness:
  "(\<exists>e s'. GroupNorm_build (\<lambda>_. [None, Some 8, Some 8, Some 64]) (VTensor (Placeholder ''x''))
          (snd (GroupNorm_init 32 (1 / 1000000) VNone ''channels_last'' (VStr ''groupnorm'')
                  (fresh\<lparr>self := [''inputs'' \<mapsto> VTensor (Placeholder ''x'')]\<rparr>)))
        = (Inl e, s'))
   \<and> (\<exists>s'. GroupNorm_build (\<lambda>_. [None, Some 8, Some 8, Some 64]) (VTensor (Placeholder ''x''))
          (snd (GroupNorm_init 32 (1 / 1000000) VNone ''channels_last'' (VStr ''groupnorm'')
                  (fresh\<lparr>self := [''inputs'' \<mapsto> VTensor (Placeholder ''x'')]\<rparr>)))
        = (Inl (AttributeError ''bata''), s')
      \<and> map fst (variables s') = [''gamma'', ''beta''] \<and> all_layers s' = []
      \<and> all_params s' = [])"
  using GroupNorm_build_never_completes [where shp = "\<lambda>_. [None, Some 8, Some 8, Some 64]"
      and x = "Placeholder ''x''" and inputs = "VTensor (Placeholder ''x'')"
      and s = "snd (GroupNorm_init 32 (1 / 1000000) VNone ''channels_last'' (VStr ''groupnorm'')
                  (fresh\<lparr>self := [''inputs'' \<mapsto> VTensor (Placeholder ''x'')]\<rparr>))"
      and data_format = "''channels_last''" and t = "Placeholder ''x''" and g = 32 and c = 64
      and n = None and ?d1.0 = "Some 8" and ?d2.0 = "Some 8" and ?d3.0 = "Some 64"]
  by (simp add: GroupNorm_init_run fresh_def scoped_def scope_name_def scope_join_def)

text \<open>
  Claim C2. For a 4-D input with \<open>c\<close> channels and \<open>g\<close> groups such that \<open>g\<close> does not
  divide \<open>c\<close>, or \<open>g\<close> exceeds \<open>c\<close>, \<^verbatim>\<open>GroupNorm.build\<close> raises, and it does so before any
  variable is allocated or any weight registered. With a valid data format, a nonzero
  \<open>g\<close> and \<^verbatim>\<open>self.inputs\<close> bound to a tensor the error is the \<^verbatim>\<open>ValueError\<close> of the check
  that fails first.
\<close>

theorem GroupNorm_build_rejects_indivisible_channels:
  assumes "shp x = [n, d1, d2, d3]"
      and "self s ''data_format'' = Some (VStr data_format)"
      and "self s ''groups'' = Some (VInt g)"
      and "(if data_format = ''channels_first'' then d1 else d3) = Some c"
      and "c mod g \<noteq> 0 \<or> g > c"
  shows "\<exists>e s'. GroupNorm_build shp (VTensor x) s = (Inl e, s')
           \<and> (variables s' = variables s \<and> all_layers s' = all_layers s
                \<and> all_params s' = all_params s
                \<and> ((data_format = ''channels_last'' \<or> data_format = ''channels_first'') \<and> g \<noteq> 0
                       \<and> (\<exists>t. self s ''inputs'' = Some (VTensor t))
                     \<longrightarrow> e = ValueError (if g > c then groups_msg else commensurate_msg)))"
  by (rule wp_never_returns
        [OF GroupNorm_build_rejects [where shp = shp and x = x, OF assms]])

theorem GroupNorm_build_rejects_indivisible_channels_witness:
  "(\<exists>s'. GroupNorm_build (\<lambda>_. [None, Some 8, Some 8, Some 48]) (VTensor (Placeholder ''x''))
          (snd (GroupNorm_init 32 (1 / 1000000) VNone ''channels_last'' (VStr ''groupnorm'')
                  (fresh\<lparr>self := [''inputs'' \<mapsto> VTensor (Placeholder ''x'')]\<rparr>)))
        = (Inl (ValueError commensurate_msg), s')
      \<and> variables s' = [] \<and> all_layers s' = [] \<and> all_params s' = [])
   \<and> (\<exists>s'. GroupNorm_build (\<lambda>_. [None, Some 16, Some 8, Some 8]) (VTensor (Placeholder ''x''))
          (snd (GroupNorm_init 32 (1 / 1000000) VNone ''channels_first'' (VStr ''groupnorm'')
                  (fresh\<lparr>self := [''inputs'' \<mapsto> VTensor (Placeholder ''x'')]\<rparr>)))
        = (Inl (ValueError groups_msg), s')
      \<and> variables s' = [] \<and> all_layers s' = [] \<and> all_params s' = [])"
  using GroupNorm_build_rejects_indivisible_channels
      [where shp = "\<lambda>_. [None, Some 8, Some 8, Some 48]"
      and x = "Placeholder ''x''"
      and s = "snd (GroupNorm_init 32 (1 / 1000000) VNone ''channels_last'' (VStr ''groupnorm'')
                  (fresh\<lparr>self := [''inputs'' \<mapsto> VTensor (Placeholder ''x'')]\<rparr>))"
      and data_format = "''channels_last''" and g = 32 and c = 48
      and n = None and ?d1.0 = "Some 8" and ?d2.0 = "Some 8" and ?d3.0 = "Some 48"]
    GroupNorm_build_rejects_indivisible_channels
      [where shp = "\<lambda>_. [None, Some 16, Some 8, Some 8]"
      and x = "Placeholder ''x''"
      and s = "snd (GroupNorm_init 32 (1 / 1000000) VNone ''channels_first'' (VStr ''groupnorm'')
                  (fresh\<lparr>self := [''inputs'' \<mapsto> VTensor (Placeholder ''x'')]\<rparr>))"
      and data_format = "''channels_first''" and g = 32 and c = 16
      and n = None and ?d1.0 = "Some 16" and ?d2.0 = "Some 8" and ?d3.0 = "Some 8"]
  by (simp add: GroupNorm_init_run fresh_def)

section \<open>SwitchNorm: the unbound initializer names\<close>

lemma wp_load_name:
  "wp (load_name locals n) Q E s =
     (case locals n of
        Some v \<Rightarrow> Q v s
      | None \<Rightarrow> if n \<in> set module_globals then Q (VObject n) s else E (NameError n) s)"
  by (simp add: load_name_def wp_simps split: option.splits)

lemma SwitchNorm_build_fails:
  "wp (SwitchNorm_build shp inputs) (\<lambda>_ _. False) (\<lambda>_ _. True) s"
  by (simp add: SwitchNorm_build_def Let_def wp_simps wp_load_name module_globals_def
        split: sum.split)

lemma getitem_last: "xs \<noteq> [] \<Longrightarrow> getitem xs (- 1) = Inr (last xs)"
  by (cases xs rule: rev_cases) (simp_all add: getitem_def nth_append)

lemma SwitchNorm_build_NameError:
  assumes "shp x \<noteq> []"
  shows "wp (SwitchNorm_build shp (VTensor x)) (\<lambda>_ _. False)
           (\<lambda>e s'. e = NameError ''gamma_init'' \<and> s' = s) s"
  using assms
  by (simp add: SwitchNorm_build_def Let_def wp_simps wp_load_name module_globals_def
        shape_attr_def getitem_last)

lemma SwitchNorm_init_run:
  "is_activation act \<Longrightarrow>
   SwitchNorm_init act eps beta_init gamma_init moving_mean_init name s =
     (Inr (), s\<lparr>self := (self s)(''name'' \<mapsto> name, ''act'' \<mapsto> act, ''epsilon'' \<mapsto> VFloat eps,
                  ''beta_init'' \<mapsto> beta_init, ''gamma_init'' \<mapsto> gamma_init,
                  ''moving_mean_init'' \<mapsto> moving_mean_init)\<rparr>)"
  by (rule wp_returns) (simp add: SwitchNorm_init_def wp_simps wp_act_name_or_default)

text \<open>
  Claim C8. \<^verbatim>\<open>SwitchNorm.build\<close> never returns: it reads the free names \<^verbatim>\<open>gamma_init\<close> and
  \<^verbatim>\<open>beta_init\<close>, which are neither local names of the method nor names of the module. For
  an input tensor of rank at least one the error is the \<^verbatim>\<open>NameError\<close> for \<^verbatim>\<open>gamma_init\<close>,
  raised before anything is allocated; this holds also when the object has the attributes
  \<^verbatim>\<open>gamma_init\<close> and \<^verbatim>\<open>beta_init\<close> that the constructor stores.
\<close>

theorem SwitchNorm_build_raises_NameError:
  "(\<exists>e s'. SwitchNorm_build shp inputs s = (Inl e, s'))
   \<and> (shp x \<noteq> [] \<longrightarrow>
        SwitchNorm_build shp (VTensor x) s = (Inl (NameError ''gamma_init''), s))"
proof (intro conjI impI)
  from wp_never_returns [OF SwitchNorm_build_fails [of shp inputs s]]
  show "\<exists>e s'. SwitchNorm_build shp inputs s = (Inl e, s')" by blast
next
  assume "shp x \<noteq> []"
  from wp_never_returns [OF SwitchNorm_build_NameError [where shp = shp and x = x, OF this]]
  show "SwitchNorm_build shp (VTensor x) s = (Inl (NameError ''gamma_init''), s)" by blast
qed

theorem SwitchNorm_build_raises_NameError_witness:
  "self (snd (SwitchNorm_init VNone (1 / 100000) (VInit (ConstantInit 0)) (VInit (ConstantInit 1))
               (VInit Zeros) (VStr ''switchnorm'') fresh)) ''gamma_init''
     = Some (VInit (ConstantInit 1))
   \<and> SwitchNorm_build (\<lambda>_. [None, Some 8, Some 8, Some 3]) (VTensor (Placeholder ''x''))
        (snd (SwitchNorm_init VNone (1 / 100000) (VInit (ConstantInit 0)) (VInit (ConstantInit 1))
               (VInit Zeros) (VStr ''switchnorm'') fresh))
     = (Inl (NameError ''gamma_init''),
        snd (SwitchNorm_init VNone (1 / 100000) (VInit (ConstantInit 0)) (VInit (ConstantInit 1))
               (VInit Zeros) (VStr ''switchnorm'') fresh))"
  using SwitchNorm_build_raises_NameError [where shp = "\<lambda>_. [None, Some 8, Some 8, Some 3]"
      and x = "Placeholder ''x''"
      and s = "snd (SwitchNorm_init VNone (1 / 100000) (VInit (ConstantInit 0))
                 (VInit (ConstantInit 1)) (VInit Zeros) (VStr ''switchnorm'') fresh)"]
  by (simp add: SwitchNorm_init_run)

section \<open>InstanceNorm: the unguarded activation\<close>







lemma InstanceNorm_forward_with_activation:
  assumes "self s ''act'' = Some (VFunc n f)" "self s ''epsilon'' = Some (VFloat eps)"
    "self s ''scale'' = Some (VTensor scale)" "self s ''offset'' = Some (VTensor offset)"
  shows "InstanceNorm_forward y s =
     (Inr (f (Add (Mul scale
                (Div (Sub y (Op ''moments.mean'' [y, IntVector [1, 2]]))
                     (Sqrt (Add (Op ''moments.variance'' [y, IntVector [1, 2]]) (Const eps)))))
              offset)), s)"
  using assms
  by (intro wp_returns)
     (simp add: InstanceNorm_forward_def Let_def wp_simps wp_call convert_to_tensor_def)



section \<open>The helper \<^verbatim>\<open>batch_normalization\<close> computes the reference normalization\<close>

subsection \<open>Broadcasting\<close>

lemma broadcast_rev_Nil2 [simp]: "broadcast_rev ms [] = Some ms"
  by (cases ms) simp_all

lemma broadcast_static_rev_Nil2 [simp]: "broadcast_static_rev as [] = Some as"
  by (cases as) simp_all

lemma broadcast_dim_same [simp]: "broadcast_dim m m = Some m"
  by (simp add: broadcast_dim_def)

lemma broadcast_dim_one [simp]: "broadcast_dim m (Suc 0) = Some m"
  by (simp add: broadcast_dim_def)

lemma operand_rev_inside:
  "list_all2 (\<lambda>i d. i < d) is ds \<Longrightarrow> operand_rev ds is = is"
  by (induction "is" ds rule: list_all2_induct) auto

lemma operand_index_inside:
  "list_all2 (\<lambda>i d. i < d) idx ds \<Longrightarrow> operand_index ds idx = idx"
  by (simp add: operand_index_def operand_rev_inside)

subsection \<open>The static shapes pass the checks\<close>

lemma broadcast_static_dim_one: "broadcast_static_dim d (Some 1) = Some d"
  by (cases d) (auto simp: broadcast_static_dim_def)

lemma broadcast_static_dim_agrees:
  "agrees d c \<Longrightarrow> \<exists>d'. broadcast_static_dim d (Some (int c)) = Some d' \<and> agrees d' c"
  by (cases d) (auto simp: broadcast_static_dim_def agrees_def)

lemma broadcast_static_vector_scalar: "broadcast_static [d] [] = Inr [d]"
  by (simp add: broadcast_static_def)

lemma broadcast_static_vectors: "broadcast_static [Some c] [Some c] = Inr [Some c]"
  by (simp add: broadcast_static_def broadcast_static_dim_def)

lemma broadcast_static_channels_last:
  assumes "agrees d c"
  shows "\<exists>d'. broadcast_static (ps @ [d]) [Some (int c)] = Inr (ps @ [d']) \<and> agrees d' c"
  using broadcast_static_dim_agrees [OF assms]
  by (auto simp: broadcast_static_def)

lemma broadcast_static_channels_first:
  assumes "agrees d c"
  shows "\<exists>d'. broadcast_static (ps @ [d, dh, dw]) [Some (int c), Some 1, Some 1]
                 = Inr (ps @ [d', dh, dw]) \<and> agrees d' c"
  using broadcast_static_dim_agrees [OF assms]
  by (auto simp: broadcast_static_def broadcast_static_dim_one)

lemma static_inv_of:
  assumes "static_shape leaf variance = [Some c]"
      and "\<And>t. scale = Some t \<Longrightarrow> static_shape leaf t = [Some c]"
  shows "static_shape leaf (inv_of variance scale e) = [Some c]"
  using assms
  by (cases scale)
     (simp_all add: inv_of_def broadcast_static_vector_scalar broadcast_static_vectors)

lemma static_shift_of:
  assumes "static_shape leaf variance = [Some c]" "static_shape leaf mean = [Some c]"
      and "\<And>t. scale = Some t \<Longrightarrow> static_shape leaf t = [Some c]"
      and "\<And>t. offset = Some t \<Longrightarrow> static_shape leaf t = [Some c]"
  shows "static_shape leaf (shift_of mean variance offset scale e) = [Some c]"
  using assms static_inv_of [of leaf variance c scale e]
  by (cases offset) (simp_all add: shift_of_def broadcast_static_vectors)

lemma coefficients_built:
  assumes "static_shape leaf variance = [Some c]" "static_shape leaf mean = [Some c]"
      and "\<And>t. scale = Some t \<Longrightarrow> static_shape leaf t = [Some c]"
      and "\<And>t. offset = Some t \<Longrightarrow> static_shape leaf t = [Some c]"
  shows "batch_normalization (static_shape leaf) x mean variance offset scale e data_format =
     (case df data_format of
        None \<Rightarrow> Inl (KeyError data_format)
      | Some f \<Rightarrow>
          try_then (bias_scale (static_shape leaf) x (Cast (inv_of variance scale e)) f)
            (\<lambda>y. bias_add (static_shape leaf) y (Cast (shift_of mean variance offset scale e)) f))"
  using assms
  by (cases scale; cases offset; cases "df data_format")
     (simp_all add: batch_normalization_def tf_add_def tf_mul_def tf_sub_def try_then_def
        inv_of_def shift_of_def Let_def broadcast_static_vector_scalar broadcast_static_vectors)

lemma to_channel_first_bias_vector:
  "shp b = [Some c] \<Longrightarrow> to_channel_first_bias shp b = Inr (Reshape b [c, 1, 1])"
  by (simp add: to_channel_first_bias_def getitem_def int_of_dim_def)

lemma helper_channels_last:
  assumes x: "static_shape leaf x = ps @ [d]" "agrees d c"
      and a: "static_shape leaf a = [Some (int c)]" and b: "static_shape leaf b = [Some (int c)]"
  shows "try_then (bias_scale (static_shape leaf) x a ''NHWC'')
           (\<lambda>y. bias_add (static_shape leaf) y b ''NHWC'') = Inr (Add (Mul x a) b)"
proof -
  from broadcast_static_channels_last [OF x(2), of ps]
  obtain d' where d': "broadcast_static (ps @ [d]) [Some (int c)] = Inr (ps @ [d'])" "agrees d' c"
    by blast
  from broadcast_static_channels_last [OF d'(2), of ps]
  obtain d'' where d'': "broadcast_static (ps @ [d']) [Some (int c)] = Inr (ps @ [d''])"
    by blast
  show ?thesis
    using x(1) a b d'(1) d''
    by (simp add: bias_scale_def bias_add_def tf_mul_def tf_add_def try_then_def)
qed

lemma helper_channels_first:
  assumes x: "static_shape leaf x = ps @ [d, dh, dw]" "agrees d c"
      and a: "static_shape leaf a = [Some (int c)]" and b: "static_shape leaf b = [Some (int c)]"
  shows "try_then (bias_scale (static_shape leaf) x a ''NCHW'')
           (\<lambda>y. bias_add (static_shape leaf) y b ''NCHW'')
         = Inr (Add (Mul x (Reshape a [int c, 1, 1])) (Reshape b [int c, 1, 1]))"
proof -
  from broadcast_static_channels_first [OF x(2), of ps dh dw]
  obtain d' where d': "broadcast_static (ps @ [d, dh, dw]) [Some (int c), Some 1, Some 1]
      = Inr (ps @ [d', dh, dw])" "agrees d' c"
    by blast
  from broadcast_static_channels_first [OF d'(2), of ps dh dw]
  obtain d'' where d'': "broadcast_static (ps @ [d', dh, dw]) [Some (int c), Some 1, Some 1]
      = Inr (ps @ [d'', dh, dw])"
    by blast
  show ?thesis
    using x(1) a b d'(1) d''
    by (simp add: bias_scale_def bias_add_def tf_mul_def tf_add_def try_then_def
          to_channel_first_bias_vector)
qed

subsection \<open>The value of the result\<close>

lemma broadcast_shape_vectors: "broadcast_shape [c] [c] = Some [c]"
  by (simp add: broadcast_shape_def)

lemma broadcast_shape_vector_scalar: "broadcast_shape [c] [] = Some [c]"
  by (simp add: broadcast_shape_def)

lemma operand_index_vector: "k < c \<Longrightarrow> operand_index [c] [k] = [k]"
  by (auto simp: operand_index_def)

lemma operand_index_scalar: "operand_index [] idx = []"
  by (simp add: operand_index_def)

lemma holds_pointwise:
  assumes "eval env a = Some A" "dims A = [c]" "eval env b = Some B" "dims B = [c]" "k < c"
  shows "\<exists>C. pointwise f (eval env a) (eval env b) = Some C \<and> dims C = [c]
            \<and> item C [k] = f (item A [k]) (item B [k])"
  using assms
  by (simp add: pointwise_def broadcast_shape_vectors operand_index_vector)

lemma holds_Mul: "holds env a c k r \<Longrightarrow> holds env b c k r' \<Longrightarrow> k < c \<Longrightarrow> holds env (Mul a b) c k (r * r')"
  unfolding holds_def using holds_pointwise [of env a _ c b _ k "(*)"] by fastforce

lemma holds_Sub: "holds env a c k r \<Longrightarrow> holds env b c k r' \<Longrightarrow> k < c \<Longrightarrow> holds env (Sub a b) c k (r - r')"
  unfolding holds_def using holds_pointwise [of env a _ c b _ k "(-)"] by fastforce

lemma holds_Add_Const: "holds env a c k r \<Longrightarrow> k < c \<Longrightarrow> holds env (Add a (Const e)) c k (r + e)"
  unfolding holds_def
  by (auto simp: pointwise_def broadcast_shape_vector_scalar operand_index_vector
        operand_index_scalar)

lemma holds_Neg: "holds env a c k r \<Longrightarrow> holds env (Neg a) c k (- r)"
  unfolding holds_def by (auto simp: elementwise_def)

lemma holds_Rsqrt: "holds env a c k r \<Longrightarrow> holds env (Rsqrt a) c k (1 / sqrt r)"
  unfolding holds_def by (auto simp: elementwise_def)

lemma holds_Cast: "holds env a c k r \<Longrightarrow> holds env (Cast a) c k r"
  unfolding holds_def by auto

lemma holds_channel_vector:
  "channel_vector leaf env c t \<Longrightarrow> holds env t c k (channel_value env t k)"
  by (auto simp: channel_vector_def holds_def channel_value_def split: option.splits)

lemma broadcast_shape_channels_last: "broadcast_shape (pre @ [c]) [c] = Some (pre @ [c])"
  by (simp add: broadcast_shape_def)

lemma broadcast_shape_channels_first:
  "broadcast_shape (pre @ [c, h, w]) [c, 1, 1] = Some (pre @ [c, h, w])"
  by (simp add: broadcast_shape_def)

lemma operand_index_channels_last: "k < c \<Longrightarrow> operand_index [c] (ip @ [k]) = [k]"
  by (auto simp: operand_index_def)

lemma operand_index_channels_first:
  "k < c \<Longrightarrow> operand_index [c, 1, 1] (ip @ [k, i, j]) = [k, 0, 0]"
  by (auto simp: operand_index_def)

lemma pointwise_channels_last:
  assumes "dims X = pre @ [c]" "dims A = [c]" "list_all2 (\<lambda>i d. i < d) (ip @ [k]) (dims X)"
    "k < c"
  shows "\<exists>Y. pointwise f (Some X) (Some A) = Some Y \<and> dims Y = dims X
           \<and> item Y (ip @ [k]) = f (item X (ip @ [k])) (item A [k])"
  using assms
  by (simp add: pointwise_def broadcast_shape_channels_last operand_index_channels_last
        operand_index_inside)

lemma pointwise_channels_first:
  assumes "dims X = pre @ [c, h, w]" "dims A = [c, 1, 1]"
    "list_all2 (\<lambda>i d. i < d) (ip @ [k, i, j]) (dims X)" "k < c"
  shows "\<exists>Y. pointwise f (Some X) (Some A) = Some Y \<and> dims Y = dims X
           \<and> item Y (ip @ [k, i, j]) = f (item X (ip @ [k, i, j])) (item A [k, 0, 0])"
  using assms
  by (simp add: pointwise_def broadcast_shape_channels_first [unfolded One_nat_def]
        operand_index_channels_first [unfolded One_nat_def] operand_index_inside)

lemma reshape_channels_first:
  assumes "holds env a c k r" "k < c"
  shows "\<exists>A. eval env (Reshape a [int c, 1, 1]) = Some A \<and> dims A = [c, 1, 1]
           \<and> item A [k, 0, 0] = r"
  using assms unfolding holds_def
  by (auto simp: reshape_def)

lemma holds_inv_of:
  assumes "channel_vector leaf env c variance"
      and "\<And>t. scale = Some t \<Longrightarrow> channel_vector leaf env c t"
      and "k < c"
  shows "holds env (inv_of variance scale e) c k
           ((1 / sqrt (channel_value env variance k + e))
             * (case scale of Some t \<Rightarrow> channel_value env t k | None \<Rightarrow> 1))"
proof (cases scale)
  case None
  then show ?thesis
    using assms(1,3)
    by (auto simp: inv_of_def intro!: holds_Rsqrt holds_Add_Const holds_channel_vector)
next
  case (Some t)
  from holds_Mul [OF holds_Rsqrt [OF holds_Add_Const [OF holds_channel_vector [OF assms(1)] assms(3)]]
      holds_channel_vector [OF assms(2) [OF Some]] assms(3)]
  show ?thesis using Some by (simp add: inv_of_def)
qed

lemma holds_shift_of:
  assumes "channel_vector leaf env c variance" "channel_vector leaf env c mean"
      and "\<And>t. scale = Some t \<Longrightarrow> channel_vector leaf env c t"
      and "\<And>t. offset = Some t \<Longrightarrow> channel_vector leaf env c t"
      and "k < c"
  shows "holds env (shift_of mean variance offset scale e) c k
           ((case offset of Some t \<Rightarrow> channel_value env t k | None \<Rightarrow> 0)
            - channel_value env mean k
              * ((1 / sqrt (channel_value env variance k + e))
                  * (case scale of Some t \<Rightarrow> channel_value env t k | None \<Rightarrow> 1)))"
proof -
  note inv = holds_inv_of [OF assms(1) assms(3) assms(5), of scale e]
  show ?thesis
  proof (cases offset)
    case None
    from holds_Mul [OF holds_Neg [OF holds_channel_vector [OF assms(2)]] inv assms(5)]
    show ?thesis using None by (simp add: shift_of_def)
  next
    case (Some t)
    from holds_Sub [OF holds_channel_vector [OF assms(4) [OF Some]]
        holds_Mul [OF holds_channel_vector [OF assms(2)] inv assms(5)] assms(5)]
    show ?thesis using Some by (simp add: shift_of_def)
  qed
qed

lemma reference_normalization_refactored:
  "x * (1 / sqrt (v + e) * (case gamma of Some g \<Rightarrow> g | None \<Rightarrow> 1))
     + ((case beta of Some b \<Rightarrow> b | None \<Rightarrow> 0)
        - m * (1 / sqrt (v + e) * (case gamma of Some g \<Rightarrow> g | None \<Rightarrow> 1)))
   = reference_normalization x m v beta gamma e"
  by (cases beta; cases gamma)
     (simp_all add: reference_normalization_def divide_inverse algebra_simps)

text \<open>
  Claim C4. \<^verbatim>\<open>batch_normalization\<close> computes \<open>a = cast(rsqrt(variance + epsilon) * scale)\<close>
  and \<open>b = cast(offset - mean * inv)\<close> and returns \<^verbatim>\<open>_bias_add(_bias_scale(x, a), b)\<close>. Let the
  value of \<open>x\<close> have its channels on the last axis (\<^verbatim>\<open>channels_last\<close>) or on the third axis
  from the end (\<^verbatim>\<open>channels_first\<close>, the layout \<^verbatim>\<open>NCHW\<close>), and let the mean, the variance, the
  offset and the scale hold one number per channel. Then, for both data formats, the
  helper returns a tensor whose value has the shape of \<open>x\<close> and is, at every index, the
  reference \<open>gamma * (x - mean) / sqrt (variance + epsilon) + beta\<close> taken at the channel \<open>k\<close>
  of that index, provided \<open>variance + epsilon > 0\<close> there; a scale or an offset that is
  \<^verbatim>\<open>None\<close> leaves its term out. The static shape of \<open>x\<close> may have unknown sizes; the size
  of the four vectors is known to the framework, as it is for the variables that
  \<^verbatim>\<open>BatchNorm\<close> creates.
\<close>

theorem batch_normalization_refines_reference:
  assumes fmt: "data_format = ''channels_last'' \<or> data_format = ''channels_first''"
      and x: "eval env x = Some X"
      and layout: "dims X = pre @ (if data_format = ''channels_first'' then [c, h, w] else [c])"
      and idx: "idx = ip @ (if data_format = ''channels_first'' then [k, i, j] else [k])"
      and inside: "list_all2 (\<lambda>n d. n < d) idx (dims X)"
      and static: "list_all2 agrees (static_shape leaf x) (dims X)"
      and mean: "channel_vector leaf env c mean"
      and variance: "channel_vector leaf env c variance"
      and offset: "\<forall>t \<in> set_option offset. channel_vector leaf env c t"
      and scale: "\<forall>t \<in> set_option scale. channel_vector leaf env c t"
      and positive: "0 < channel_value env variance k + epsilon"
  shows "\<exists>out Y. batch_normalization (static_shape leaf) x mean variance offset scale epsilon
                    data_format = Inr out
           \<and> eval env out = Some Y \<and> dims Y = dims X
           \<and> item Y idx =
               reference_normalization (item X idx) (channel_value env mean k)
                 (channel_value env variance k)
                 (map_option (\<lambda>t. channel_value env t k) offset)
                 (map_option (\<lambda>t. channel_value env t k) scale) epsilon"
proof -
  define a where "a = Cast (inv_of variance scale epsilon)"
  define b where "b = Cast (shift_of mean variance offset scale epsilon)"
  define ak where "ak = 1 / sqrt (channel_value env variance k + epsilon)
      * (case map_option (\<lambda>t. channel_value env t k) scale of Some g \<Rightarrow> g | None \<Rightarrow> 1)"
  define bk where "bk = (case map_option (\<lambda>t. channel_value env t k) offset of
        Some b \<Rightarrow> b | None \<Rightarrow> 0) - channel_value env mean k * ak"
  have sc: "\<And>t. scale = Some t \<Longrightarrow> channel_vector leaf env c t"
    and off: "\<And>t. offset = Some t \<Longrightarrow> channel_vector leaf env c t"
    using offset scale by auto
  have k: "k < c"
    using inside fmt unfolding layout idx
    by (auto simp: list_all2_append2 list_all2_Cons2)
  have sa: "static_shape leaf a = [Some (int c)]"
    unfolding a_def using variance sc
    by (simp add: static_inv_of channel_vector_def)
  have sb: "static_shape leaf b = [Some (int c)]"
    unfolding b_def using variance mean sc off
    by (simp add: static_shift_of channel_vector_def)
  have built: "batch_normalization (static_shape leaf) x mean variance offset scale epsilon
      data_format =
     (case df data_format of
        None \<Rightarrow> Inl (KeyError data_format)
      | Some f \<Rightarrow> try_then (bias_scale (static_shape leaf) x a f)
                    (\<lambda>y. bias_add (static_shape leaf) y b f))"
    unfolding a_def b_def using variance mean sc off
    by (intro coefficients_built) (simp_all add: channel_vector_def)
  have ha: "holds env a c k ak"
    unfolding a_def ak_def
    using holds_Cast [OF holds_inv_of [OF variance sc k, of scale epsilon]]
    by (cases scale) simp_all
  have hb: "holds env b c k bk"
    unfolding b_def bk_def ak_def
    using holds_Cast [OF holds_shift_of [OF variance mean sc off k, of scale offset epsilon]]
    by (cases scale; cases offset) simp_all
  have alg: "item X idx * ak + bk =
      reference_normalization (item X idx) (channel_value env mean k)
        (channel_value env variance k) (map_option (\<lambda>t. channel_value env t k) offset)
        (map_option (\<lambda>t. channel_value env t k) scale) epsilon"
    unfolding ak_def bk_def ak_def by (rule reference_normalization_refactored)
  from fmt show ?thesis
  proof
    assume last: "data_format = ''channels_last''"
    with layout idx have dims: "dims X = pre @ [c]" and at: "idx = ip @ [k]" by simp_all
    from static dims obtain ps d where sx: "static_shape leaf x = ps @ [d]" "agrees d c"
      by (auto simp: list_all2_append2 list_all2_Cons2)
    from ha obtain A where A: "eval env a = Some A" "dims A = [c]" "item A [k] = ak"
      unfolding holds_def by blast
    from hb obtain B where B: "eval env b = Some B" "dims B = [c]" "item B [k] = bk"
      unfolding holds_def by blast
    from pointwise_channels_last [OF dims A(2) inside [unfolded at] k, of "(*)"]
    obtain Y where Y: "pointwise (*) (Some X) (Some A) = Some Y" "dims Y = dims X"
      "item Y (ip @ [k]) = item X (ip @ [k]) * item A [k]" by blast
    from pointwise_channels_last [OF dims [folded Y(2)] B(2) inside [unfolded at, folded Y(2)] k,
        of "(+)"]
    obtain Z where Z: "pointwise (+) (Some Y) (Some B) = Some Z" "dims Z = dims Y"
      "item Z (ip @ [k]) = item Y (ip @ [k]) + item B [k]" by blast
    have "batch_normalization (static_shape leaf) x mean variance offset scale epsilon
        data_format = Inr (Add (Mul x a) b)"
      unfolding built using helper_channels_last [OF sx sa sb] last by (simp add: df_def)
    moreover have "eval env (Add (Mul x a) b) = Some Z"
      using x A(1) B(1) Y(1) Z(1) by simp
    moreover have "dims Z = dims X" using Z(2) Y(2) by simp
    moreover have "item Z idx = item X idx * ak + bk"
      using Z(3) Y(3) A(3) B(3) at by simp
    ultimately show ?thesis using alg by auto
  next
    assume first: "data_format = ''channels_first''"
    with layout idx have dims: "dims X = pre @ [c, h, w]" and at: "idx = ip @ [k, i, j]"
      by simp_all
    from static dims obtain ps d dh dw where sx: "static_shape leaf x = ps @ [d, dh, dw]"
      "agrees d c"
      by (auto simp: list_all2_append2 list_all2_Cons2)
    from reshape_channels_first [OF ha k]
    obtain A where A: "eval env (Reshape a [int c, 1, 1]) = Some A" "dims A = [c, 1, 1]"
      "item A [k, 0, 0] = ak" by blast
    from reshape_channels_first [OF hb k]
    obtain B where B: "eval env (Reshape b [int c, 1, 1]) = Some B" "dims B = [c, 1, 1]"
      "item B [k, 0, 0] = bk" by blast
    from pointwise_channels_first [OF dims A(2) inside [unfolded at] k, of "(*)"]
    obtain Y where Y: "pointwise (*) (Some X) (Some A) = Some Y" "dims Y = dims X"
      "item Y (ip @ [k, i, j]) = item X (ip @ [k, i, j]) * item A [k, 0, 0]" by blast
    from pointwise_channels_first [OF dims [folded Y(2)] B(2)
        inside [unfolded at, folded Y(2)] k, of "(+)"]
    obtain Z where Z: "pointwise (+) (Some Y) (Some B) = Some Z" "dims Z = dims Y"
      "item Z (ip @ [k, i, j]) = item Y (ip @ [k, i, j]) + item B [k, 0, 0]" by blast
    have "batch_normalization (static_shape leaf) x mean variance offset scale epsilon
        data_format = Inr (Add (Mul x (Reshape a [int c, 1, 1])) (Reshape b [int c, 1, 1]))"
      unfolding built using helper_channels_first [OF sx sa sb] first by (simp add: df_def)
    moreover have "eval env (Add (Mul x (Reshape a [int c, 1, 1])) (Reshape b [int c, 1, 1]))
        = Some Z"
      using x A(1) B(1) Y(1) Z(1) by simp
    moreover have "dims Z = dims X" using Z(2) Y(2) by simp
    moreover have "item Z idx = item X idx * ak + bk"
      using Z(3) Y(3) A(3) B(3) at by simp
    ultimately show ?thesis using alg by auto
  qed
qed

theorem batch_normalization_refines_reference_witness:
  "(\<exists>out Y. batch_normalization
        (static_shape (\<lambda>t. if t = Placeholder ''x'' then [None, Some 3, Some 4, Some 4]
                             else [Some 3]))
        (Placeholder ''x'') (Placeholder ''mean'') (Placeholder ''variance'')
        (Some (Placeholder ''beta'')) (Some (Placeholder ''gamma'')) 1 ''channels_first'' = Inr out
      \<and> eval (\<lambda>t. if t = Placeholder ''x'' then \<lparr>dims = [2, 3, 4, 4], item = (\<lambda>idx. 5)\<rparr>
                   else if t = Placeholder ''mean''
                     then \<lparr>dims = [3], item = (\<lambda>idx. of_nat (hd idx))\<rparr>
                   else if t = Placeholder ''variance'' then \<lparr>dims = [3], item = (\<lambda>idx. 3)\<rparr>
                   else if t = Placeholder ''beta'' then \<lparr>dims = [3], item = (\<lambda>idx. 7)\<rparr>
                   else \<lparr>dims = [3], item = (\<lambda>idx. 2)\<rparr>) out = Some Y
      \<and> dims Y = [2, 3, 4, 4] \<and> item Y [1, 2, 0, 3] = 10)
   \<and> (\<exists>out Y. batch_normalization
        (static_shape (\<lambda>t. if t = Placeholder ''x'' then [None, Some 4, Some 4, Some 3]
                             else [Some 3]))
        (Placeholder ''x'') (Placeholder ''mean'') (Placeholder ''variance'')
        None None 1 ''channels_last'' = Inr out
      \<and> eval (\<lambda>t. if t = Placeholder ''x'' then \<lparr>dims = [2, 4, 4, 3], item = (\<lambda>idx. 5)\<rparr>
                   else if t = Placeholder ''mean''
                     then \<lparr>dims = [3], item = (\<lambda>idx. of_nat (hd idx))\<rparr>
                   else \<lparr>dims = [3], item = (\<lambda>idx. 3)\<rparr>) out = Some Y
      \<and> dims Y = [2, 4, 4, 3] \<and> item Y [1, 0, 3, 1] = 2)"
  using batch_normalization_refines_reference
    [where data_format = "''channels_first''"
       and leaf = "\<lambda>t. if t = Placeholder ''x'' then [None, Some 3, Some 4, Some 4] else [Some 3]"
       and env = "\<lambda>t. if t = Placeholder ''x'' then \<lparr>dims = [2, 3, 4, 4], item = (\<lambda>idx. 5)\<rparr>
                   else if t = Placeholder ''mean''
                     then \<lparr>dims = [3], item = (\<lambda>idx. of_nat (hd idx))\<rparr>
                   else if t = Placeholder ''variance'' then \<lparr>dims = [3], item = (\<lambda>idx. 3)\<rparr>
                   else if t = Placeholder ''beta'' then \<lparr>dims = [3], item = (\<lambda>idx. 7)\<rparr>
                   else \<lparr>dims = [3], item = (\<lambda>idx. 2)\<rparr>"
       and x = "Placeholder ''x''" and mean = "Placeholder ''mean''"
       and variance = "Placeholder ''variance''" and offset = "Some (Placeholder ''beta'')"
       and scale = "Some (Placeholder ''gamma'')" and epsilon = 1
       and X = "\<lparr>dims = [2, 3, 4, 4], item = (\<lambda>idx. 5)\<rparr>"
       and pre = "[2]" and c = 3 and h = 4 and w = 4
       and idx = "[1, 2, 0, 3]" and ip = "[1]" and k = 2 and i = 0 and j = 3]
    batch_normalization_refines_reference
    [where data_format = "''channels_last''"
       and leaf = "\<lambda>t. if t = Placeholder ''x'' then [None, Some 4, Some 4, Some 3] else [Some 3]"
       and env = "\<lambda>t. if t = Placeholder ''x'' then \<lparr>dims = [2, 4, 4, 3], item = (\<lambda>idx. 5)\<rparr>
                   else if t = Placeholder ''mean''
                     then \<lparr>dims = [3], item = (\<lambda>idx. of_nat (hd idx))\<rparr>
                   else \<lparr>dims = [3], item = (\<lambda>idx. 3)\<rparr>"
       and x = "Placeholder ''x''" and mean = "Placeholder ''mean''"
       and variance = "Placeholder ''variance''" and offset = None and scale = None
       and epsilon = 1
       and X = "\<lparr>dims = [2, 4, 4, 3], item = (\<lambda>idx. 5)\<rparr>"
       and pre = "[2, 4, 4]" and c = 3
       and idx = "[1, 0, 3, 1]" and ip = "[1, 0, 3]" and k = 1]
  by (simp add: channel_vector_def channel_value_def agrees_def reference_normalization_def)

section \<open>The accepted values of \<^verbatim>\<open>data_format\<close>\<close>

lemma wp_fst: "wp m (\<lambda>_ _. True) (\<lambda>e _. P e) s \<Longrightarrow> fst (m s) = Inl e \<Longrightarrow> P e"
  by (auto simp: wp_def split: prod.splits sum.splits)

lemma BatchNorm_init_valid_data_format:
  assumes "data_format = ''channels_last'' \<or> data_format = ''channels_first''"
  shows "raises_only (\<lambda>e. e \<noteq> ValueError BatchNorm_data_format_msg)
           (BatchNorm_init shp prev_layer d eps act is_train beta_init gamma_init
              moving_mean_init data_format name)"
  using assms
  unfolding BatchNorm_init_def BatchNorm_scope_body_def Layer_init_prev_def
    act_name_or_default_def apply_activation_def
  by (intro raises_only_intros)
     (auto simp: BatchNorm_data_format_msg_def shape_msg_def name_msg_def broadcast_msg_def
        dest: getitem_error batch_normalization_error get_shape_error convert_to_tensor_error)

lemma BatchNorm_init_invalid_data_format:
  assumes "is_activation act" "0 \<le> d" "d \<le> 1"
    "data_format \<noteq> ''channels_last''" "data_format \<noteq> ''channels_first''"
  shows "fst (BatchNorm_init shp (VLayer t) d eps act is_train beta_init gamma_init
              moving_mean_init data_format name s) = Inl (ValueError BatchNorm_data_format_msg)"
  using assms
  by (simp add: fst_run BatchNorm_init_def Layer_init_prev_def wp_simps wp_outputs_of
        wp_act_name_or_default get_shape_def)

lemma py_floordiv_error: "py_floordiv c g = Inl e \<Longrightarrow> e \<noteq> ValueError msg"
  by (auto simp: py_floordiv_def split: option.splits val.splits if_splits)
lemma py_mod_error: "py_mod c g = Inl e \<Longrightarrow> e \<noteq> ValueError msg"
  by (auto simp: py_mod_def split: option.splits val.splits if_splits)
lemma py_gt_error: "py_gt g c = Inl e \<Longrightarrow> e \<noteq> ValueError msg"
  by (auto simp: py_gt_def split: option.splits val.splits if_splits)
lemma int_vector_error: "int_vector vs = Inl e \<Longrightarrow> e \<noteq> ValueError msg"
  by (auto simp: int_vector_def split: option.splits)
lemma getitem_not_ValueError: "getitem xs i = Inl e \<Longrightarrow> e \<noteq> ValueError msg"
  by (auto dest: getitem_error)
lemma get_shape_not_ValueError: "get_shape shp v = Inl e \<Longrightarrow> e \<noteq> ValueError msg"
  by (auto dest: get_shape_error)
lemma convert_to_tensor_not_data_format:
  "convert_to_tensor v = Inl e \<Longrightarrow> e \<noteq> ValueError GroupNorm_data_format_msg"
  by (auto simp: GroupNorm_data_format_msg_def dest: convert_to_tensor_error)

lemmas GroupNorm_errors = py_floordiv_error py_mod_error py_gt_error int_vector_error
  getitem_not_ValueError get_shape_not_ValueError
  convert_to_tensor_not_data_format [unfolded GroupNorm_data_format_msg_def]

lemma GroupNorm_build_valid_data_format:
  assumes "self s ''data_format'' = Some (VStr data_format)"
    "data_format = ''channels_last'' \<or> data_format = ''channels_first''"
  shows "wp (GroupNorm_build shp inputs) (\<lambda>_ _. True)
           (\<lambda>e _. e \<noteq> ValueError GroupNorm_data_format_msg) s"
  using assms(2)
proof
  assume "data_format = ''channels_last''"
  with assms(1) show ?thesis
    by (simp add: GroupNorm_build_def wp_simps GroupNorm_errors GroupNorm_data_format_msg_def
          groups_msg_def commensurate_msg_def shape_msg_def name_msg_def
          split: sum.split option.split)
next
  assume "data_format = ''channels_first''"
  with assms(1) show ?thesis
    by (simp add: GroupNorm_build_def wp_simps GroupNorm_errors GroupNorm_data_format_msg_def
          groups_msg_def commensurate_msg_def shape_msg_def name_msg_def
          split: sum.split option.split)
qed

lemma GroupNorm_build_invalid_data_format:
  assumes "length (shp x) = 4" "self s ''data_format'' = Some (VStr data_format)"
    "data_format \<noteq> ''channels_last''" "data_format \<noteq> ''channels_first''"
  shows "fst (GroupNorm_build shp (VTensor x) s) = Inl (ValueError GroupNorm_data_format_msg)"
  using assms
  by (simp add: fst_run GroupNorm_build_def wp_simps get_shape_def)

lemma bias_scale_data_format:
  "(bias_scale shp y b fmt = Inl (ValueError (data_format_msg fmt)))
     = (fmt \<noteq> ''NHWC'' \<and> fmt \<noteq> ''NCHW'')"
  by (auto simp: bias_scale_def data_format_msg_def broadcast_msg_def
        dest!: try_then_error tf_mul_error to_channel_first_bias_error)

lemma bias_add_data_format:
  "(bias_add shp y b fmt = Inl (ValueError (data_format_msg fmt)))
     = (fmt \<noteq> ''NHWC'' \<and> fmt \<noteq> ''NCHW'')"
  by (auto simp: bias_add_def data_format_msg_def broadcast_msg_def
        dest!: try_then_error tf_add_error to_channel_first_bias_error)

lemma wp_unit_result:
  "wp m (\<lambda>_ s'. P s') (\<lambda>_ _. False) s \<Longrightarrow> fst (m s) = Inr () \<and> P (snd (m s))"
  by (auto simp: wp_def split: prod.splits sum.splits)

lemma valid_name_batchnorm: "valid_name [] ''batchnorm''"
  by (simp add: valid_name_def name_start_def name_rest_def)

lemma valid_name_moving_mean: "valid_name scope ''moving_mean''"
  by (simp add: valid_name_def name_start_def name_rest_def)

lemma valid_name_moving_variance: "valid_name scope ''moving_variance''"
  by (simp add: valid_name_def name_start_def name_rest_def)

lemmas BatchNorm_names = valid_name_batchnorm valid_name_beta valid_name_gamma
  valid_name_moving_mean valid_name_moving_variance

lemmas run_simps = try_then_def tf_add_def tf_sub_def tf_mul_def broadcast_static_def
  broadcast_static_dim_def to_channel_first_bias_def int_of_dim_def getitem_def

lemma BatchNorm_defaults_run:
  "fst (BatchNorm_init (static_shape (\<lambda>_. [None, Some 8, Some 8, Some 3]))
          (VLayer (Placeholder ''x'')) (9 / 10) (1 / 100000) VNone False
          (VInit zeros_initializer_class) (VInit (RandomNormal 1 (2 / 1000))) (VInit Zeros)
          ''channels_last'' ''batchnorm'' fresh) = Inr ()
   \<and> variables (snd (BatchNorm_init (static_shape (\<lambda>_. [None, Some 8, Some 8, Some 3]))
          (VLayer (Placeholder ''x'')) (9 / 10) (1 / 100000) VNone False
          (VInit zeros_initializer_class) (VInit (RandomNormal 1 (2 / 1000))) (VInit Zeros)
          ''channels_last'' ''batchnorm'' fresh))
       = [(''batchnorm/beta'', VDim (Some 3), VInit Zeros),
          (''batchnorm/gamma'', VDim (Some 3), VInit (RandomNormal 1 (2 / 1000))),
          (''batchnorm/moving_mean'', VDim (Some 3), VInit Zeros),
          (''batchnorm/moving_variance'', VDim (Some 3), VInit (ConstantInit 1))]
   \<and> length (all_layers (snd (BatchNorm_init (static_shape (\<lambda>_. [None, Some 8, Some 8, Some 3]))
          (VLayer (Placeholder ''x'')) (9 / 10) (1 / 100000) VNone False
          (VInit zeros_initializer_class) (VInit (RandomNormal 1 (2 / 1000))) (VInit Zeros)
          ''channels_last'' ''batchnorm'' fresh))) = 1
   \<and> length (all_params (snd (BatchNorm_init (static_shape (\<lambda>_. [None, Some 8, Some 8, Some 3]))
          (VLayer (Placeholder ''x'')) (9 / 10) (1 / 100000) VNone False
          (VInit zeros_initializer_class) (VInit (RandomNormal 1 (2 / 1000))) (VInit Zeros)
          ''channels_last'' ''batchnorm'' fresh))) = 4"
  by (rule wp_unit_result)
     (simp add: BatchNorm_init_def Layer_init_prev_def act_name_or_default_def wp_simps
        wp_outputs_of get_shape_def BatchNorm_scope_body_def Let_def
        convert_to_tensor_def batch_normalization_def df_def bias_scale_def bias_add_def
        apply_activation_def fresh_def scoped_def scope_name_def scope_join_def shape_dims_def
        BatchNorm_names run_simps)

lemma BatchNorm_channels_first_run:
  "fst (BatchNorm_init (static_shape (\<lambda>_. [None, Some 3, Some 8, Some 8]))
          (VLayer (Placeholder ''x'')) (9 / 10) (1 / 100000) VNone False
          (VInit zeros_initializer_class) (VInit (RandomNormal 1 (2 / 1000))) (VInit Zeros)
          ''channels_first'' ''batchnorm'' fresh) = Inr ()
   \<and> variables (snd (BatchNorm_init (static_shape (\<lambda>_. [None, Some 3, Some 8, Some 8]))
          (VLayer (Placeholder ''x'')) (9 / 10) (1 / 100000) VNone False
          (VInit zeros_initializer_class) (VInit (RandomNormal 1 (2 / 1000))) (VInit Zeros)
          ''channels_first'' ''batchnorm'' fresh))
       = [(''batchnorm/beta'', VDim (Some 3), VInit Zeros),
          (''batchnorm/gamma'', VDim (Some 3), VInit (RandomNormal 1 (2 / 1000))),
          (''batchnorm/moving_mean'', VDim (Some 3), VInit Zeros),
          (''batchnorm/moving_variance'', VDim (Some 3), VInit (ConstantInit 1))]"
  by (rule wp_unit_result)
     (simp add: BatchNorm_init_def Layer_init_prev_def act_name_or_default_def wp_simps
        wp_outputs_of get_shape_def BatchNorm_scope_body_def Let_def
        convert_to_tensor_def batch_normalization_def df_def bias_scale_def bias_add_def
        apply_activation_def fresh_def scoped_def scope_name_def scope_join_def shape_dims_def
        BatchNorm_names run_simps)

text \<open>
  Claim C6. \<^verbatim>\<open>BatchNorm.__init__\<close> (once the decay check has passed) and \<^verbatim>\<open>GroupNorm.build\<close>
  (on a 4-D input) raise the \<^verbatim>\<open>ValueError\<close> of their data-format check exactly when
  \<^verbatim>\<open>data_format\<close> is neither \<^verbatim>\<open>channels_last\<close> nor \<^verbatim>\<open>channels_first\<close>; the helpers
  \<^verbatim>\<open>_bias_scale\<close> and \<^verbatim>\<open>_bias_add\<close> raise the \<^verbatim>\<open>ValueError\<close> of their data-format check exactly
  when it is neither \<^verbatim>\<open>NHWC\<close> nor \<^verbatim>\<open>NCHW\<close>. (With an accepted value the call goes on and can
  still fail for another reason, such as shapes that the framework refuses to broadcast.)
\<close>

theorem data_format_enumerations:
  "(is_activation act \<and> 0 \<le> decay \<and> decay \<le> 1 \<longrightarrow>
      (fst (BatchNorm_init shp (VLayer t) decay epsilon act is_train beta_init gamma_init
              moving_mean_init data_format name s) = Inl (ValueError BatchNorm_data_format_msg))
      = (data_format \<noteq> ''channels_last'' \<and> data_format \<noteq> ''channels_first''))
   \<and> (length (shp x) = 4 \<and> self s ''data_format'' = Some (VStr data_format) \<longrightarrow>
      (fst (GroupNorm_build shp (VTensor x) s) = Inl (ValueError GroupNorm_data_format_msg))
      = (data_format \<noteq> ''channels_last'' \<and> data_format \<noteq> ''channels_first''))
   \<and> (bias_scale shp y b fmt = Inl (ValueError (data_format_msg fmt)))
       = (fmt \<noteq> ''NHWC'' \<and> fmt \<noteq> ''NCHW'')
   \<and> (bias_add shp y b fmt = Inl (ValueError (data_format_msg fmt)))
       = (fmt \<noteq> ''NHWC'' \<and> fmt \<noteq> ''NCHW'')"
proof (intro conjI impI)
  assume h: "is_activation act \<and> 0 \<le> decay \<and> decay \<le> 1"
  show "(fst (BatchNorm_init shp (VLayer t) decay epsilon act is_train beta_init gamma_init
              moving_mean_init data_format name s) = Inl (ValueError BatchNorm_data_format_msg))
      = (data_format \<noteq> ''channels_last'' \<and> data_format \<noteq> ''channels_first'')"
  proof
    assume raised: "fst (BatchNorm_init shp (VLayer t) decay epsilon act is_train beta_init
        gamma_init moving_mean_init data_format name s) = Inl (ValueError BatchNorm_data_format_msg)"
    show "data_format \<noteq> ''channels_last'' \<and> data_format \<noteq> ''channels_first''"
    proof (rule ccontr)
      assume "\<not> (data_format \<noteq> ''channels_last'' \<and> data_format \<noteq> ''channels_first'')"
      then have "data_format = ''channels_last'' \<or> data_format = ''channels_first''" by blast
      from BatchNorm_init_valid_data_format [OF this] raised show False
        unfolding raises_only_def by blast
    qed
  next
    assume "data_format \<noteq> ''channels_last'' \<and> data_format \<noteq> ''channels_first''"
    with h show "fst (BatchNorm_init shp (VLayer t) decay epsilon act is_train beta_init
        gamma_init moving_mean_init data_format name s) = Inl (ValueError BatchNorm_data_format_msg)"
      by (intro BatchNorm_init_invalid_data_format) auto
  qed
next
  assume h: "length (shp x) = 4 \<and> self s ''data_format'' = Some (VStr data_format)"
  show "(fst (GroupNorm_build shp (VTensor x) s) = Inl (ValueError GroupNorm_data_format_msg))
      = (data_format \<noteq> ''channels_last'' \<and> data_format \<noteq> ''channels_first'')"
  proof
    assume raised: "fst (GroupNorm_build shp (VTensor x) s)
      = Inl (ValueError GroupNorm_data_format_msg)"
    show "data_format \<noteq> ''channels_last'' \<and> data_format \<noteq> ''channels_first''"
    proof (rule ccontr)
      assume "\<not> (data_format \<noteq> ''channels_last'' \<and> data_format \<noteq> ''channels_first'')"
      then have valid: "data_format = ''channels_last'' \<or> data_format = ''channels_first''"
        by blast
      from h have "self s ''data_format'' = Some (VStr data_format)" by simp
      from wp_fst [OF GroupNorm_build_valid_data_format [OF this valid] raised]
      show False by simp
    qed
  next
    assume "data_format \<noteq> ''channels_last'' \<and> data_format \<noteq> ''channels_first''"
    with h show "fst (GroupNorm_build shp (VTensor x) s)
      = Inl (ValueError GroupNorm_data_format_msg)"
      by (intro GroupNorm_build_invalid_data_format) auto
  qed
next
  show "(bias_scale shp y b fmt = Inl (ValueError (data_format_msg fmt)))
      = (fmt \<noteq> ''NHWC'' \<and> fmt \<noteq> ''NCHW'')"
    by (rule bias_scale_data_format)
next
  show "(bias_add shp y b fmt = Inl (ValueError (data_format_msg fmt)))
      = (fmt \<noteq> ''NHWC'' \<and> fmt \<noteq> ''NCHW'')"
    by (rule bias_add_data_format)
qed

lemma GroupNorm_accepts_channels_last:
  "fst (GroupNorm_build (\<lambda>_. [None, Some 8, Some 8, Some 64]) (VTensor (Placeholder ''x''))
          (snd (GroupNorm_init 32 (1 / 1000000) VNone ''channels_last'' (VStr ''groupnorm'')
                  (fresh\<lparr>self := [''inputs'' \<mapsto> VTensor (Placeholder ''x'')]\<rparr>)))) = Inl (AttributeError ''bata'')"
  by (simp add: fst_run GroupNorm_init_run GroupNorm_build_def GroupNorm_prims
        convert_to_tensor_def wp_simps fresh_def)

theorem data_format_enumerations_witness:
  "fst (BatchNorm_init (static_shape (\<lambda>_. [None, Some 8, Some 8, Some 3]))
          (VLayer (Placeholder ''x'')) (9 / 10) (1 / 100000) VNone False
          (VInit zeros_initializer_class) (VInit (RandomNormal 1 (2 / 1000))) (VInit Zeros)
          ''NHWC'' ''batchnorm'' fresh)
     = Inl (ValueError BatchNorm_data_format_msg)
   \<and> fst (BatchNorm_init (static_shape (\<lambda>_. [None, Some 8, Some 8, Some 3]))
          (VLayer (Placeholder ''x'')) (9 / 10) (1 / 100000) VNone False
          (VInit zeros_initializer_class) (VInit (RandomNormal 1 (2 / 1000))) (VInit Zeros)
          ''channels_last'' ''batchnorm'' fresh) = Inr ()
   \<and> fst (BatchNorm_init (static_shape (\<lambda>_. [None, Some 3, Some 8, Some 8]))
          (VLayer (Placeholder ''x'')) (9 / 10) (1 / 100000) VNone False
          (VInit zeros_initializer_class) (VInit (RandomNormal 1 (2 / 1000))) (VInit Zeros)
          ''channels_first'' ''batchnorm'' fresh) = Inr ()
   \<and> fst (GroupNorm_build (\<lambda>_. [None, Some 8, Some 8, Some 64]) (VTensor (Placeholder ''x''))
          (snd (GroupNorm_init 32 (1 / 1000000) VNone ''NHWC'' (VStr ''groupnorm'')
                  (fresh\<lparr>self := [''inputs'' \<mapsto> VTensor (Placeholder ''x'')]\<rparr>))))
     = Inl (ValueError GroupNorm_data_format_msg)
   \<and> fst (GroupNorm_build (\<lambda>_. [None, Some 8, Some 8, Some 64]) (VTensor (Placeholder ''x''))
          (snd (GroupNorm_init 32 (1 / 1000000) VNone ''channels_last'' (VStr ''groupnorm'')
                  (fresh\<lparr>self := [''inputs'' \<mapsto> VTensor (Placeholder ''x'')]\<rparr>))))
     = Inl (AttributeError ''bata'')
   \<and> bias_scale (static_shape (\<lambda>t. if t = Placeholder ''x'' then [None, Some 8, Some 8, Some 3] else [Some 3]))
        (Placeholder ''x'') (Placeholder ''b'') ''channels_last''
     = Inl (ValueError (data_format_msg ''channels_last''))
   \<and> bias_scale (static_shape (\<lambda>t. if t = Placeholder ''x'' then [None, Some 8, Some 8, Some 3] else [Some 3]))
        (Placeholder ''x'') (Placeholder ''b'') ''NHWC''
     = Inr (Mul (Placeholder ''x'') (Placeholder ''b''))
   \<and> bias_scale (static_shape (\<lambda>t. if t = Placeholder ''x'' then [None, Some 3, Some 8, Some 8] else [Some 3]))
        (Placeholder ''x'') (Placeholder ''b'') ''NCHW''
     = Inr (Mul (Placeholder ''x'') (Reshape (Placeholder ''b'') [3, 1, 1]))
   \<and> bias_scale (static_shape (\<lambda>t. if t = Placeholder ''x'' then [None, Some 8, Some 8, Some 3] else [Some 3]))
        (Placeholder ''x'') (Placeholder ''b'') ''NCHW''
     = Inl (ValueError broadcast_msg)
   \<and> bias_add (static_shape (\<lambda>t. if t = Placeholder ''x'' then [None, Some 8, Some 8, Some 3] else [Some 3]))
        (Placeholder ''x'') (Placeholder ''b'') ''channels_last''
     = Inl (ValueError (data_format_msg ''channels_last''))
   \<and> bias_add (static_shape (\<lambda>t. if t = Placeholder ''x'' then [None, Some 8, Some 8, Some 3] else [Some 3]))
        (Placeholder ''x'') (Placeholder ''b'') ''NHWC''
     = Inr (Add (Placeholder ''x'') (Placeholder ''b''))
   \<and> bias_add (static_shape (\<lambda>t. if t = Placeholder ''x'' then [None, Some 3, Some 8, Some 8] else [Some 3]))
        (Placeholder ''x'') (Placeholder ''b'') ''NCHW''
     = Inr (Add (Placeholder ''x'') (Reshape (Placeholder ''b'') [3, 1, 1]))"
proof -
  note rejected = data_format_enumerations
    [where act = VNone and decay = "9 / 10"
       and shp = "static_shape (\<lambda>_. [None, Some 8, Some 8, Some 3])" and t = "Placeholder ''x''"
       and epsilon = "1 / 100000" and is_train = False
       and beta_init = "VInit zeros_initializer_class"
       and gamma_init = "VInit (RandomNormal 1 (2 / 1000))" and moving_mean_init = "VInit Zeros"
       and data_format = "''NHWC''" and name = "''batchnorm''" and s = fresh]
  note rejected_build = data_format_enumerations
    [where shp = "\<lambda>_. [None, Some 8, Some 8, Some 64]" and x = "Placeholder ''x''"
       and data_format = "''NHWC''"
       and s = "snd (GroupNorm_init 32 (1 / 1000000) VNone ''NHWC'' (VStr ''groupnorm'')
                  (fresh\<lparr>self := [''inputs'' \<mapsto> VTensor (Placeholder ''x'')]\<rparr>))"]
  note rejected_helper = data_format_enumerations
    [where shp = "static_shape (\<lambda>t. if t = Placeholder ''x'' then [None, Some 8, Some 8, Some 3] else [Some 3])"
       and y = "Placeholder ''x''" and b = "Placeholder ''b''" and fmt = "''channels_last''"]
  have "fst (BatchNorm_init (static_shape (\<lambda>_. [None, Some 8, Some 8, Some 3]))
          (VLayer (Placeholder ''x'')) (9 / 10) (1 / 100000) VNone False
          (VInit zeros_initializer_class) (VInit (RandomNormal 1 (2 / 1000))) (VInit Zeros)
          ''NHWC'' ''batchnorm'' fresh)
     = Inl (ValueError BatchNorm_data_format_msg)"
    using rejected by simp
  moreover have "fst (GroupNorm_build (\<lambda>_. [None, Some 8, Some 8, Some 64])
          (VTensor (Placeholder ''x''))
          (snd (GroupNorm_init 32 (1 / 1000000) VNone ''NHWC'' (VStr ''groupnorm'')
                  (fresh\<lparr>self := [''inputs'' \<mapsto> VTensor (Placeholder ''x'')]\<rparr>))))
     = Inl (ValueError GroupNorm_data_format_msg)"
    using rejected_build by (simp add: GroupNorm_init_run)
  moreover have "bias_scale (static_shape (\<lambda>t. if t = Placeholder ''x'' then [None, Some 8, Some 8, Some 3] else [Some 3]))
        (Placeholder ''x'') (Placeholder ''b'') ''channels_last''
     = Inl (ValueError (data_format_msg ''channels_last''))"
    using rejected_helper by simp
  moreover have "bias_add (static_shape (\<lambda>t. if t = Placeholder ''x'' then [None, Some 8, Some 8, Some 3] else [Some 3]))
        (Placeholder ''x'') (Placeholder ''b'') ''channels_last''
     = Inl (ValueError (data_format_msg ''channels_last''))"
    using rejected_helper by simp
  ultimately show ?thesis
    using BatchNorm_defaults_run BatchNorm_channels_first_run GroupNorm_accepts_channels_last
    by (simp add: bias_scale_def bias_add_def run_simps)
qed

section \<open>The two-phase lifecycle\<close>


































end
